(* ===== verification/Prelude.thy ===== *)
theory Prelude
  imports Main "HOL-Library.Word" "HOL-Library.Sublist"
begin

text \<open>
  Shared vocabulary of the Mandala Art Generator model (src/MandalaArt.py).
  Python \<open>str\<close> values are HOL strings, one \<open>char\<close> per code point; the model
  covers the code points 0..255 (Latin-1), which is what \<open>char\<close> can hold.
  Python \<open>bytes\<close> are lists of \<open>8 word\<close>.  This theory holds the Python
  string built-ins the script calls (\<open>str.strip\<close>, truthiness, \<open>and\<close> on strings),
  the list lemmas the components share, and the named collection \<open>py_defs\<close> of
  the built-ins' definitions.
\<close>

named_theorems py_defs "definitions of the Python built-ins used by the script"

type_synonym byte = "8 word"
type_synonym pystr = string

subsection \<open>Python string built-ins\<close>

text \<open>
  \<open>str.isspace\<close> on one code point below 256: CPython's whitespace table holds
  9..13 (\<open>\t \n \v \f \r\<close>), 28..31 (the ASCII separators), 32 (space),
  133 (NEL) and 160 (no-break space).
\<close>

definition py_isspace :: "char \<Rightarrow> bool" where
  [py_defs]: "py_isspace c \<longleftrightarrow>
     (of_char c :: nat) \<in> set [9, 10, 11, 12, 13, 28, 29, 30, 31, 32, 133, 160]"

text \<open>
  \<open>str.strip()\<close> without arguments (CPython \<open>do_strip\<close>): skip whitespace from the
  left, then from the right, and return the slice in between.
\<close>

definition py_lstrip :: "pystr \<Rightarrow> pystr" where
  [py_defs]: "py_lstrip s = dropWhile py_isspace s"

definition py_rstrip :: "pystr \<Rightarrow> pystr" where
  [py_defs]: "py_rstrip s = rev (dropWhile py_isspace (rev s))"

definition py_strip :: "pystr \<Rightarrow> pystr" where
  [py_defs]: "py_strip s = py_rstrip (py_lstrip s)"

text \<open>Truthiness of a \<open>str\<close>: the empty string is false, every other string true.\<close>

definition py_truthy :: "pystr \<Rightarrow> bool" where
  [py_defs]: "py_truthy s \<longleftrightarrow> s \<noteq> []"

text \<open>Python's \<open>a and b\<close> on strings returns \<open>a\<close> when \<open>a\<close> is false, else \<open>b\<close>.\<close>

definition py_and :: "pystr \<Rightarrow> pystr \<Rightarrow> pystr" where
  [py_defs]: "py_and a b = (if py_truthy a then b else a)"

subsection \<open>Lemmas on the built-ins\<close>

lemma py_truthy_and [simp]: "py_truthy (py_and a b) \<longleftrightarrow> py_truthy a \<and> py_truthy b"
  by (simp add: py_and_def py_truthy_def)

lemma py_lstrip_suffix: "suffix (py_lstrip s) s"
proof (induction s)
  case Nil
  then show ?case by (simp add: py_lstrip_def)
next
  case (Cons c s)
  then show ?case by (auto simp: py_lstrip_def suffix_Cons)
qed

lemma py_rstrip_prefix: "prefix (py_rstrip s) s"
proof -
  have "suffix (dropWhile py_isspace (rev s)) (rev s)"
    using py_lstrip_suffix [of "rev s"] by (simp add: py_lstrip_def)
  then show ?thesis by (simp add: py_rstrip_def suffix_to_prefix)
qed

lemma py_strip_sublist: "sublist (py_strip s) s"
proof -
  have "prefix (py_strip s) (py_lstrip s)"
    by (simp add: py_strip_def py_rstrip_prefix)
  moreover have "suffix (py_lstrip s) s"
    by (rule py_lstrip_suffix)
  ultimately show ?thesis
    by (meson prefix_imp_sublist sublist_order.order_trans suffix_imp_sublist)
qed

lemma py_lstrip_hd: "py_lstrip s \<noteq> [] \<Longrightarrow> \<not> py_isspace (hd (py_lstrip s))"
  by (simp add: py_lstrip_def hd_dropWhile)

lemma py_rstrip_last: "py_rstrip s \<noteq> [] \<Longrightarrow> \<not> py_isspace (last (py_rstrip s))"
  by (simp add: py_rstrip_def last_rev hd_dropWhile)

lemma py_rstrip_Nil_iff: "py_rstrip s = [] \<longleftrightarrow> (\<forall>c \<in> set s. py_isspace c)"
  by (simp add: py_rstrip_def)

lemma py_lstrip_Nil_iff: "py_lstrip s = [] \<longleftrightarrow> (\<forall>c \<in> set s. py_isspace c)"
  by (simp add: py_lstrip_def)

lemma py_strip_Nil_iff: "py_strip s = [] \<longleftrightarrow> (\<forall>c \<in> set s. py_isspace c)"
proof
  assume "py_strip s = []"
  then have "\<forall>c \<in> set (py_lstrip s). py_isspace c"
    by (simp add: py_strip_def py_rstrip_Nil_iff)
  then have "py_lstrip s = []"
    by (metis hd_dropWhile list.set_sel(1) py_lstrip_def)
  then show "\<forall>c \<in> set s. py_isspace c"
    by (simp add: py_lstrip_Nil_iff)
next
  assume "\<forall>c \<in> set s. py_isspace c"
  then have "py_lstrip s = []"
    by (simp add: py_lstrip_Nil_iff)
  then show "py_strip s = []"
    by (simp add: py_strip_def py_rstrip_def)
qed

lemma py_lstrip_id: "s = [] \<or> \<not> py_isspace (hd s) \<Longrightarrow> py_lstrip s = s"
  by (cases s) (auto simp: py_lstrip_def)

lemma py_rstrip_id: "s = [] \<or> \<not> py_isspace (last s) \<Longrightarrow> py_rstrip s = s"
  by (cases "rev s") (auto simp: py_rstrip_def last_rev dest: arg_cong [of _ _ rev])

lemma py_strip_hd_last:
  assumes "py_strip s \<noteq> []"
  shows "\<not> py_isspace (hd (py_strip s)) \<and> \<not> py_isspace (last (py_strip s))"
proof
  have pre: "prefix (py_strip s) (py_lstrip s)"
    by (simp add: py_strip_def py_rstrip_prefix)
  with assms have "hd (py_strip s) = hd (py_lstrip s)" and "py_lstrip s \<noteq> []"
    by (auto simp: prefix_def)
  then show "\<not> py_isspace (hd (py_strip s))"
    by (simp add: py_lstrip_hd)
  show "\<not> py_isspace (last (py_strip s))"
    using assms by (simp add: py_strip_def py_rstrip_last)
qed

lemma py_strip_fixed: "py_strip (py_strip s) = py_strip s"
proof (cases "py_strip s = []")
  case True
  have "py_strip [] = []"
    by (simp add: py_defs)
  with True show ?thesis by simp
next
  case False
  then have "py_lstrip (py_strip s) = py_strip s"
    using py_strip_hd_last by (blast intro: py_lstrip_id)
  moreover have "py_rstrip (py_strip s) = py_strip s"
    using False py_strip_hd_last by (blast intro: py_rstrip_id)
  ultimately show ?thesis by (simp add: py_strip_def [of "py_strip s"])
qed

end
