(* ===== verification/Prompt.thy ===== *)
theory Prompt
  imports Prelude
begin

text \<open>
  PromptBuilder: \<open>generate_mandala_prompt\<close> (src/MandalaArt.py, lines 66--81).
  The f-string of line 68--79 is the fixed text around two interpolations of the
  inspiration word; it is written out here byte for byte, with the newlines and the
  four-space indentation the triple-quoted literal keeps, split at the two
  interpolation points into \<open>prompt_head\<close>, \<open>prompt_middle\<close> and \<open>prompt_tail\<close>.
  The lemmas show where the word occurs, the prompt's length, the style markers it
  always carries, and that the word can be read back from the prompt.
\<close>

definition nl :: char where
  "nl = CHR 0x0A"

definition apos :: char where
  "apos = CHR 0x27"

definition prompt_head :: pystr where
  "prompt_head =
     ''Create a beautiful, intricate black and white mandala design inspired by the word '' @
     [apos]"

definition prompt_middle :: pystr where
  "prompt_middle =
     [apos] @ ''. '' @ [nl] @
     ''    The mandala should be:'' @ [nl] @
     ''    - Completely black and white (no colors, no grayscale - pure black lines on white background)'' @ [nl] @
     ''    - Perfectly symmetrical and circular'' @ [nl] @
     ''    - Featuring intricate geometric patterns, sacred geometry, and detailed ornamental elements'' @ [nl] @
     ''    - Incorporating symbolic elements related to '' @ [apos]"

definition prompt_tail :: pystr where
  "prompt_tail =
     [apos] @ [nl] @
     ''    - High contrast with crisp, clean lines'' @ [nl] @
     ''    - Suitable for meditation and coloring'' @ [nl] @
     ''    - Professional quality with fine details'' @ [nl] @
     ''    - Centered on a pure white background'' @ [nl] @
     ''    '' @ [nl] @
     ''    Style: Traditional mandala art, spiritual, meditative, geometric, ornate, detailed line art''"

definition generate_mandala_prompt :: "pystr \<Rightarrow> pystr" where
  "generate_mandala_prompt inspiration_word =
     prompt_head @ inspiration_word @ prompt_middle @ inspiration_word @ prompt_tail"

text \<open>
  Reading the word back: the prompt's length fixes the word's length, and the word
  starts right after \<open>prompt_head\<close>.  \<open>prompt_word\<close> is a specification-side
  parser used to state that the prompt determines the word.
\<close>

definition prompt_fixed_len :: nat where
  "prompt_fixed_len = length prompt_head + length prompt_middle + length prompt_tail"

definition prompt_word :: "pystr \<Rightarrow> pystr option" where
  "prompt_word p =
     (let m = (length p - prompt_fixed_len) div 2;
          w = take m (drop (length prompt_head) p)
      in if generate_mandala_prompt w = p then Some w else None)"

lemmas prompt_text_defs = prompt_head_def prompt_middle_def prompt_tail_def nl_def apos_def

lemma prompt_lengths:
  "length prompt_head = 83" "length prompt_middle = 316" "length prompt_tail = 276"
  by (simp_all add: prompt_text_defs)

lemma prompt_fixed_len_val: "prompt_fixed_len = 675"
  by (simp add: prompt_fixed_len_def prompt_lengths)

lemma length_generate_mandala_prompt:
  "length (generate_mandala_prompt w) = 2 * length w + prompt_fixed_len"
  by (simp add: generate_mandala_prompt_def prompt_fixed_len_def)

lemma prompt_word_generate: "prompt_word (generate_mandala_prompt w) = Some w"
proof -
  have m: "(length (generate_mandala_prompt w) - prompt_fixed_len) div 2 = length w"
    by (simp add: length_generate_mandala_prompt)
  have "take (length w) (drop (length prompt_head) (generate_mandala_prompt w)) = w"
    by (simp add: generate_mandala_prompt_def)
  with m show ?thesis
    by (simp add: prompt_word_def Let_def)
qed

lemma prompt_word_Some: "prompt_word p = Some w \<Longrightarrow> generate_mandala_prompt w = p"
  by (auto simp: prompt_word_def Let_def split: if_splits)

lemma prompt_style_markers:
  "sublist ''black and white'' prompt_head"
  "sublist ''symmetrical'' prompt_middle"
  "sublist ''sacred geometry'' prompt_middle"
  "sublist ''meditation'' prompt_tail"
  by (simp_all only: prompt_text_defs) code_simp+

lemma prompt_quotes:
  "\<exists>h. prompt_head = h @ [apos]" "\<exists>m. prompt_middle = [apos] @ m"
  by (simp_all add: prompt_head_def prompt_middle_def)

lemma sublist_in_prompt:
  "sublist x prompt_head \<or> sublist x prompt_middle \<or> sublist x prompt_tail \<Longrightarrow>
   sublist x (generate_mandala_prompt w)"
proof -
  have "sublist prompt_head (generate_mandala_prompt w)"
    "sublist prompt_middle (generate_mandala_prompt w)"
    "sublist prompt_tail (generate_mandala_prompt w)"
    using sublist_appendI [of prompt_head "[]" "w @ prompt_middle @ w @ prompt_tail"]
      sublist_appendI [of prompt_middle "prompt_head @ w" "w @ prompt_tail"]
      sublist_appendI [of prompt_tail "prompt_head @ w @ prompt_middle @ w" "[]"]
    by (simp_all add: generate_mandala_prompt_def)
  then show "?thesis" if "sublist x prompt_head \<or> sublist x prompt_middle \<or> sublist x prompt_tail"
    using that by (meson sublist_order.order_trans)
qed

text \<open>
  C1.  Every prompt carries the inspiration word verbatim, between single quotes,
  and the style markers the spec asks for (black and white, symmetry, sacred
  geometry, suitability for meditation), whatever the word.
\<close>

theorem generate_mandala_prompt_contents:
  "sublist ([apos] @ w @ [apos]) (generate_mandala_prompt w) \<and>
   sublist ''black and white'' (generate_mandala_prompt w) \<and>
   sublist ''symmetrical'' (generate_mandala_prompt w) \<and>
   sublist ''sacred geometry'' (generate_mandala_prompt w) \<and>
   sublist ''meditation'' (generate_mandala_prompt w)"
proof -
  obtain h m where "prompt_head = h @ [apos]" and "prompt_middle = [apos] @ m"
    using prompt_quotes by blast
  then have "generate_mandala_prompt w = h @ ([apos] @ w @ [apos]) @ m @ w @ prompt_tail"
    by (simp add: generate_mandala_prompt_def)
  then have "sublist ([apos] @ w @ [apos]) (generate_mandala_prompt w)"
    by (metis sublist_appendI)
  then show ?thesis
    using prompt_style_markers by (simp add: sublist_in_prompt)
qed

text \<open>
  C2.  Distinct inspiration words give distinct prompts: the prompt determines the
  word, which \<open>prompt_word\<close> reads back.
\<close>

theorem generate_mandala_prompt_inj: "inj generate_mandala_prompt"
  by (rule inj_on_inverseI [where g = "\<lambda>p. the (prompt_word p)"]) (simp add: prompt_word_generate)

end
