(* ===== verification/Base64.thy ===== *)
theory Base64
  imports Prelude
begin

unbundle bit_operations_syntax

text \<open>
  The base64 layer of the download link: \<open>base64.b64encode(buffered.getvalue())\<close>
  in \<open>get_image_download_link\<close> (src/MandalaArt.py, line 120).  Python's
  \<open>b64encode\<close> is \<open>binascii.b2a_base64(s, newline=False)\<close>, whose C loop
  shifts every byte into an \<open>unsigned int leftchar\<close> (32 bits, so the left
  shift wraps around), emits a character whenever six or more bits are pending,
  and pads the last group with \<open>=\<close>.  That loop is \<open>b2a_loop\<close> /
  \<open>b2a_base64\<close> below, on \<open>32 word\<close>.  Two references sit beside it: the same
  loop with an unbounded accumulator (\<open>b64_nat\<close>: only the pending bits are kept,
  so no wrap-around), and the group-of-three definition of RFC 4648, section 4
  (\<open>b64_ref\<close>).  The lemmas show that the wrap-around never reaches the
  output, that the loop computes RFC 4648, the length and alphabet of the output,
  and that the RFC decoder \<open>b64decode\<close> inverts it.  This is the standard
  library's code, not the repository's: the theory is the library semantics the
  download link's round trip (\<open>Download\<close>) rests on, and states no property of
  the script of its own.
\<close>

definition table_b2a_base64 :: string where
  "table_b2a_base64 = ''ABCDEFGHIJKLMNOPQRSTUVWXYZabcdefghijklmnopqrstuvwxyz0123456789+/''"

definition b64_char :: "nat \<Rightarrow> char" where
  "b64_char i = table_b2a_base64 ! i"

definition BASE64_PAD :: char where
  "BASE64_PAD = CHR ''=''"

subsection \<open>CPython's encoder: \<open>binascii_b2a_base64_impl\<close>\<close>

text \<open>
  The inner \<open>while (leftbits >= 6)\<close> loop: take the top six pending bits,
  \<open>this_ch = (leftchar >> (leftbits-6)) & 0x3f\<close>, lower \<open>leftbits\<close>, emit.
\<close>

fun emit_sextets :: "32 word \<Rightarrow> nat \<Rightarrow> string \<Rightarrow> nat \<times> string" where
  "emit_sextets leftchar leftbits out =
     (if 6 \<le> leftbits
      then emit_sextets leftchar (leftbits - 6)
             (out @ [b64_char (unat (drop_bit (leftbits - 6) leftchar AND 0x3f))])
      else (leftbits, out))"

text \<open>The outer loop over the input: \<open>leftchar = (leftchar << 8) | *bin_data\<close>.\<close>

fun b2a_loop :: "32 word \<Rightarrow> nat \<Rightarrow> string \<Rightarrow> byte list \<Rightarrow> 32 word \<times> nat \<times> string" where
  "b2a_loop leftchar leftbits out [] = (leftchar, leftbits, out)"
| "b2a_loop leftchar leftbits out (b # bs) =
     (let leftchar' = push_bit 8 leftchar OR ucast b
      in case emit_sextets leftchar' (leftbits + 8) out of
           (leftbits', out') \<Rightarrow> b2a_loop leftchar' leftbits' out' bs)"

text \<open>The tail: two or four bits left give one more character and the padding.\<close>

definition b2a_base64 :: "byte list \<Rightarrow> string" where
  "b2a_base64 bin_data =
     (case b2a_loop 0 0 [] bin_data of
        (leftchar, leftbits, out) \<Rightarrow>
          if leftbits = 2 then
            out @ [b64_char (unat (push_bit 4 (leftchar AND 3))), BASE64_PAD, BASE64_PAD]
          else if leftbits = 4 then
            out @ [b64_char (unat (push_bit 2 (leftchar AND 0xf))), BASE64_PAD]
          else out)"

definition b64encode :: "byte list \<Rightarrow> string" where
  "b64encode s = b2a_base64 s"

subsection \<open>The same loop with an unbounded accumulator\<close>

fun emit_nat :: "nat \<Rightarrow> nat \<Rightarrow> string \<Rightarrow> nat \<times> nat \<times> string" where
  "emit_nat acc bits out =
     (if 6 \<le> bits
      then emit_nat (acc mod 2 ^ (bits - 6)) (bits - 6) (out @ [b64_char (acc div 2 ^ (bits - 6))])
      else (acc, bits, out))"

fun enc_nat :: "nat \<Rightarrow> nat \<Rightarrow> string \<Rightarrow> byte list \<Rightarrow> nat \<times> nat \<times> string" where
  "enc_nat acc bits out [] = (acc, bits, out)"
| "enc_nat acc bits out (b # bs) =
     (case emit_nat (acc * 256 + unat b) (bits + 8) out of
        (acc', bits', out') \<Rightarrow> enc_nat acc' bits' out' bs)"

definition b64_finish :: "nat \<times> nat \<times> string \<Rightarrow> string" where
  "b64_finish st =
     (case st of (acc, bits, out) \<Rightarrow>
        if bits = 2 then out @ [b64_char (acc * 16), BASE64_PAD, BASE64_PAD]
        else if bits = 4 then out @ [b64_char (acc * 4), BASE64_PAD]
        else out)"

definition b64_nat :: "byte list \<Rightarrow> string" where
  "b64_nat bs = b64_finish (enc_nat 0 0 [] bs)"

subsection \<open>RFC 4648, section 4: groups of three bytes\<close>

fun b64_ref :: "byte list \<Rightarrow> string" where
  "b64_ref (a # b # c # rest) =
     (let n = unat a * 2 ^ 16 + unat b * 2 ^ 8 + unat c
      in map b64_char [n div 2 ^ 18, n div 2 ^ 12 mod 64, n div 2 ^ 6 mod 64, n mod 64])
     @ b64_ref rest"
| "b64_ref [a, b] =
     (let n = unat a * 2 ^ 16 + unat b * 2 ^ 8
      in map b64_char [n div 2 ^ 18, n div 2 ^ 12 mod 64, n div 2 ^ 6 mod 64] @ [BASE64_PAD])"
| "b64_ref [a] =
     (let n = unat a * 2 ^ 16
      in map b64_char [n div 2 ^ 18, n div 2 ^ 12 mod 64] @ [BASE64_PAD, BASE64_PAD])"
| "b64_ref [] = []"

subsection \<open>RFC 4648 decoding\<close>

text \<open>
  The receiving side of the data URL: the browser decodes the \<open>href\<close> payload.
  \<open>b64_index\<close> is the position of a character in the alphabet; \<open>b64decode\<close>
  reads groups of four characters, with one or two \<open>=\<close> allowed in the last.
\<close>

definition b64_index :: "char \<Rightarrow> nat option" where
  "b64_index c =
     (let i = length (takeWhile (\<lambda>x. x \<noteq> c) table_b2a_base64)
      in if i < 64 then Some i else None)"

fun b64decode :: "string \<Rightarrow> byte list option" where
  "b64decode [] = Some []"
| "b64decode (c1 # c2 # c3 # c4 # rest) =
     (case (b64_index c1, b64_index c2, b64_index c3, b64_index c4) of
        (Some i1, Some i2, Some i3, Some i4) \<Rightarrow>
          (let n = i1 * 2 ^ 18 + i2 * 2 ^ 12 + i3 * 2 ^ 6 + i4
           in map_option (\<lambda>r. [of_nat (n div 2 ^ 16), of_nat (n div 2 ^ 8 mod 256), of_nat (n mod 256)] @ r)
                (b64decode rest))
      | (Some i1, Some i2, Some i3, None) \<Rightarrow>
          (let n = i1 * 2 ^ 18 + i2 * 2 ^ 12 + i3 * 2 ^ 6
           in if c4 = BASE64_PAD \<and> rest = [] then Some [of_nat (n div 2 ^ 16), of_nat (n div 2 ^ 8 mod 256)]
              else None)
      | (Some i1, Some i2, None, None) \<Rightarrow>
          (let n = i1 * 2 ^ 18 + i2 * 2 ^ 12
           in if c3 = BASE64_PAD \<and> c4 = BASE64_PAD \<and> rest = [] then Some [of_nat (n div 2 ^ 16)]
              else None)
      | _ \<Rightarrow> None)"
| "b64decode _ = None"

declare emit_sextets.simps [simp del] emit_nat.simps [simp del]

subsection \<open>Arithmetic of bit fields\<close>

lemma div_pow2_mod_pow2: "(x::nat) div 2 ^ k mod 2 ^ j = x mod 2 ^ (k + j) div 2 ^ k"
  by (metis drop_bit_eq_div drop_bit_take_bit take_bit_eq_mod add_diff_cancel_left')

lemma unat_sextet: "unat (drop_bit k (lc::32 word) AND 0x3f) = unat lc div 2 ^ k mod 64"
proof -
  have "(0x3f::32 word) = mask 6"
    by (simp add: mask_eq_exp_minus_1)
  then have "drop_bit k lc AND 0x3f = take_bit 6 (drop_bit k lc)"
    by (simp add: take_bit_eq_mask)
  then show ?thesis
    by (simp only: unsigned_take_bit_eq unat_drop_bit_eq) (simp add: take_bit_eq_mod drop_bit_eq_div)
qed

lemma nat_push_bit_or:
  assumes "(b::nat) < 2 ^ k"
  shows "push_bit k x OR b = x * 2 ^ k + b"
proof -
  have "take_bit k b = b"
    using assms by (simp add: take_bit_nat_eq_self_iff)
  then have "\<not> bit (push_bit k x) n \<or> \<not> bit b n" for n
    by (metis bit_push_bit_iff bit_take_bit_iff not_le)
  then have "push_bit k x + b = push_bit k x OR b"
    by (rule disjunctive_add)
  then show ?thesis
    by (simp add: push_bit_eq_mult)
qed

lemma take_bit_shift_in:
  assumes "8 \<le> m" "m \<le> 32"
  shows "take_bit m (unat (push_bit 8 (lc::32 word) OR ucast (b::byte))) =
         push_bit 8 (take_bit (m - 8) (unat lc)) OR unat b"
proof (rule bit_eqI)
  fix n
  show "bit (take_bit m (unat (push_bit 8 lc OR ucast b))) n =
        bit (push_bit 8 (take_bit (m - 8) (unat lc)) OR unat b) n"
    using assms by (auto simp: bit_simps dest: bit_imp_le_length)
qed

lemma unat_shift_in_mod:
  assumes "lb \<le> 24"
  shows "unat (push_bit 8 (lc::32 word) OR ucast (b::byte)) mod 2 ^ (lb + 8) =
         (unat lc mod 2 ^ lb) * 256 + unat b"
proof -
  have "unat b < 2 ^ 8"
    using unsigned_less [of b] by simp
  then have "push_bit 8 (take_bit lb (unat lc)) OR unat b = take_bit lb (unat lc) * 2 ^ 8 + unat b"
    by (rule nat_push_bit_or)
  with take_bit_shift_in [of "lb + 8" lc b] assms show ?thesis
    by (simp add: take_bit_eq_mod)
qed

lemma unat_push_bit_mask:
  assumes "j + k \<le> 32"
  shows "unat (push_bit k ((lc::32 word) AND mask j)) = (unat lc mod 2 ^ j) * 2 ^ k"
proof -
  have "unat lc mod 2 ^ j * 2 ^ k < 2 ^ j * 2 ^ k"
    by simp
  also have "(2::nat) ^ (j + k) \<le> 2 ^ 32"
    using assms by (intro power_increasing) simp_all
  then have "(2::nat) ^ j * 2 ^ k \<le> 2 ^ 32"
    by (simp add: power_add)
  finally have "take_bit 32 (unat lc mod 2 ^ j * 2 ^ k) = unat lc mod 2 ^ j * 2 ^ k"
    by (simp add: take_bit_nat_eq_self_iff)
  then show ?thesis
    by (simp only: unsigned_push_bit_eq take_bit_eq_mask [symmetric] unsigned_take_bit_eq)
      (simp add: take_bit_eq_mod push_bit_eq_mult)
qed

lemma nat_bits_lt: "(a::nat) < 2 ^ k \<Longrightarrow> bit a n \<Longrightarrow> n < k"
  by (metis bit_take_bit_iff take_bit_nat_eq_self_iff)

lemma nat_div_mod_bits:
  "(x::nat) div 4 = drop_bit 2 x" "x div 16 = drop_bit 4 x" "x div 64 = drop_bit 6 x"
  "x div 4096 = drop_bit 12 x" "x div 262144 = drop_bit 18 x"
  "x div 256 = drop_bit 8 x" "x div 65536 = drop_bit 16 x"
  "x mod 4 = take_bit 2 x" "x mod 16 = take_bit 4 x" "x mod 64 = take_bit 6 x"
  "x mod 256 = take_bit 8 x"
  by (simp_all add: drop_bit_eq_div take_bit_eq_mod)

text \<open>
  The four characters of one group, as the accumulator loop computes them (left)
  and as RFC 4648 reads them off the 24-bit group (right); and the three bytes
  read back off the group.
\<close>

lemma group_digits:
  fixes a b c :: nat
  assumes "a < 256" "b < 256" "c < 256"
  defines "n \<equiv> a * 65536 + b * 256 + c"
  shows "a div 4 = n div 262144 \<and>
         (a mod 4 * 256 + b) div 16 = n div 4096 mod 64 \<and>
         ((a mod 4 * 256 + b) mod 16 * 256 + c) div 64 = n div 64 mod 64 \<and>
         ((a mod 4 * 256 + b) mod 16 * 256 + c) mod 64 = n mod 64 \<and>
         n div 65536 = a \<and> n div 256 mod 256 = b \<and> n mod 256 = c"
proof -
  from assms(1-3) have ba: "bit a i \<Longrightarrow> i < 8" and bb: "bit b i \<Longrightarrow> i < 8"
    and bc: "bit c i \<Longrightarrow> i < 8" for i
    using nat_bits_lt [of a 8 i] nat_bits_lt [of b 8 i] nat_bits_lt [of c 8 i] by simp_all
  have "push_bit 8 (push_bit 8 a OR b) OR c = (a * 256 + b) * 256 + c"
    using assms(1-3) by (simp add: nat_push_bit_or)
  then have g: "n = push_bit 16 a OR push_bit 8 b OR c"
    by (simp add: n_def push_bit_or push_bit_push_bit or.assoc algebra_simps)
  have l1: "a mod 4 * 256 + b = push_bit 8 (take_bit 2 a) OR b"
    using assms(2) by (simp add: nat_push_bit_or take_bit_eq_mod)
  have l2: "x mod 16 * 256 + c = push_bit 8 (take_bit 4 x) OR c" for x
    using assms(3) by (simp add: nat_push_bit_or take_bit_eq_mod)
  show ?thesis
    unfolding g l2 unfolding l1 unfolding nat_div_mod_bits
    by (intro conjI bit_eqI; auto simp: bit_simps dest: ba bb bc)
qed

subsection \<open>The 32-bit loop refines the unbounded one\<close>

lemma emit_sextets_lt: "fst (emit_sextets lc lb out) < 6"
  by (induction lc lb out rule: emit_sextets.induct) (simp add: emit_sextets.simps)

lemma emit_sextets_nat:
  assumes "lb \<le> 32" and "emit_sextets lc lb out = (lb', out')"
  shows "emit_nat (unat lc mod 2 ^ lb) lb out = (unat lc mod 2 ^ lb', lb', out')"
  using assms
proof (induction lc lb out arbitrary: lb' out' rule: emit_sextets.induct)
  case (1 lc lb out)
  show ?case
  proof (cases "6 \<le> lb")
    case True
    let ?d = "b64_char (unat (drop_bit (lb - 6) lc AND 0x3f))"
    have digit: "unat (drop_bit (lb - 6) lc AND 0x3f) = unat lc mod 2 ^ lb div 2 ^ (lb - 6)"
      using True div_pow2_mod_pow2 [of "unat lc" "lb - 6" 6] by (simp add: unat_sextet)
    have acc: "unat lc mod 2 ^ lb mod 2 ^ (lb - 6) = unat lc mod 2 ^ (lb - 6)"
      by (simp add: mod_mod_cancel le_imp_power_dvd)
    from "1.prems"(2) True have "emit_sextets lc (lb - 6) (out @ [?d]) = (lb', out')"
      by (simp add: emit_sextets.simps [of lc lb out])
    with "1.IH" True "1.prems"(1)
    have "emit_nat (unat lc mod 2 ^ (lb - 6)) (lb - 6) (out @ [?d]) = (unat lc mod 2 ^ lb', lb', out')"
      by simp
    with True digit acc show ?thesis
      by (simp add: emit_nat.simps [of "unat lc mod 2 ^ lb"])
  next
    case False
    with "1.prems"(2) show ?thesis
      by (simp add: emit_sextets.simps emit_nat.simps)
  qed
qed

lemma b2a_loop_nat:
  assumes "lb < 6" and "b2a_loop lc lb out bs = (lc', lb', out')"
  shows "enc_nat (unat lc mod 2 ^ lb) lb out bs = (unat lc' mod 2 ^ lb', lb', out') \<and> lb' < 6"
  using assms
proof (induction bs arbitrary: lc lb out)
  case Nil
  then show ?case by simp
next
  case (Cons b bs)
  define lc1 where "lc1 = push_bit 8 lc OR ucast b"
  obtain lb1 out1 where e: "emit_sextets lc1 (lb + 8) out = (lb1, out1)"
    by (cases "emit_sextets lc1 (lb + 8) out")
  have lb1: "lb1 < 6"
    using emit_sextets_lt [of lc1 "lb + 8" out] e by simp
  have rest: "b2a_loop lc1 lb1 out1 bs = (lc', lb', out')"
    using Cons.prems(2) e by (simp add: lc1_def [symmetric])
  have "emit_nat (unat lc1 mod 2 ^ (lb + 8)) (lb + 8) out = (unat lc1 mod 2 ^ lb1, lb1, out1)"
    using Cons.prems(1) e by (intro emit_sextets_nat) simp_all
  moreover have "unat lc1 mod 2 ^ (lb + 8) = unat lc mod 2 ^ lb * 256 + unat b"
    using Cons.prems(1) unfolding lc1_def by (intro unat_shift_in_mod) simp
  ultimately show ?case
    using Cons.IH [OF lb1 rest] by simp
qed

lemma b2a_base64_nat: "b2a_base64 bs = b64_nat bs"
proof -
  obtain lc lb out where l: "b2a_loop 0 0 [] bs = (lc, lb, out)"
    by (cases "b2a_loop 0 0 [] bs")
  from b2a_loop_nat [OF _ l] have enc: "enc_nat 0 0 [] bs = (unat lc mod 2 ^ lb, lb, out)"
    by simp
  have "(3::32 word) = mask 2" "(0xf::32 word) = mask 4"
    by (simp_all add: mask_eq_exp_minus_1)
  then have t2: "unat (push_bit 4 (lc AND 3)) = unat lc mod 2 ^ 2 * 2 ^ 4"
    and t4: "unat (push_bit 2 (lc AND 0xf)) = unat lc mod 2 ^ 4 * 2 ^ 2"
    by (simp_all only: unat_push_bit_mask)
  show ?thesis
    unfolding b2a_base64_def b64_nat_def b64_finish_def l enc
    by (simp only: prod.case t2 t4) simp
qed

subsection \<open>The loop computes RFC 4648\<close>

lemma unat_byte_lt: "unat (b::byte) < 256"
  using unsigned_less [of b] by simp

lemma enc_nat_ref: "b64_finish (enc_nat 0 0 out bs) = out @ b64_ref bs"
proof (induction bs arbitrary: out rule: b64_ref.induct)
  case (1 a b c rest)
  let ?x = "unat a mod 4 * 256 + unat b"
  have "enc_nat 0 0 out (a # b # c # rest) =
        enc_nat 0 0 (out @ map b64_char [unat a div 4, ?x div 16,
          (?x mod 16 * 256 + unat c) div 64, (?x mod 16 * 256 + unat c) mod 64]) rest"
    by (simp add: emit_nat.simps)
  with group_digits [of "unat a" "unat b" "unat c", OF unat_byte_lt unat_byte_lt unat_byte_lt] "1.IH" show ?case
    by (simp add: Let_def)
next
  case (2 a b)
  let ?x = "unat a mod 4 * 256 + unat b"
  have "?x mod 16 * 256 div 64 = ?x mod 16 * 4"
    by simp
  with group_digits [of "unat a" "unat b" 0, OF unat_byte_lt unat_byte_lt] show ?case
    by (simp add: emit_nat.simps b64_finish_def Let_def)
next
  case (3 a)
  have "unat a mod 4 * 256 div 16 = unat a mod 4 * 16"
    by simp
  with group_digits [of "unat a" 0 0, OF unat_byte_lt] show ?case
    by (simp add: emit_nat.simps b64_finish_def Let_def)
next
  case 4
  then show ?case by (simp add: b64_finish_def)
qed

lemma b64_nat_ref: "b64_nat bs = b64_ref bs"
  using enc_nat_ref [of "[]" bs] by (simp add: b64_nat_def)

subsection \<open>Decoding inverts encoding\<close>

lemma length_takeWhile_distinct:
  "distinct xs \<Longrightarrow> i < length xs \<Longrightarrow> length (takeWhile (\<lambda>x. x \<noteq> xs ! i) xs) = i"
proof (induction xs arbitrary: i)
  case Nil
  then show ?case by simp
next
  case (Cons y ys)
  show ?case
  proof (cases i)
    case 0
    then show ?thesis by simp
  next
    case (Suc j)
    with Cons.prems have "ys ! j \<noteq> y" and "j < length ys"
      by (auto simp: nth_mem)
    with Cons.IH Cons.prems Suc show ?thesis
      by simp
  qed
qed

lemma table_facts:
  "distinct table_b2a_base64" "length table_b2a_base64 = 64"
  "BASE64_PAD \<notin> set table_b2a_base64"
  by (simp_all add: table_b2a_base64_def BASE64_PAD_def)

lemma b64_index_char: "i < 64 \<Longrightarrow> b64_index (b64_char i) = Some i"
  using length_takeWhile_distinct [of table_b2a_base64 i] table_facts
  by (simp add: b64_index_def b64_char_def)

lemma b64_index_pad: "b64_index BASE64_PAD = None"
proof -
  have tw: "takeWhile (\<lambda>x. x \<noteq> BASE64_PAD) table_b2a_base64 = table_b2a_base64"
    using table_facts(3) by (auto simp: takeWhile_eq_all_conv)
  show ?thesis
    unfolding b64_index_def Let_def tw using table_facts(2) by simp
qed

lemma b64_index_group:
  assumes "(n::nat) div 65536 < 256"
  shows "b64_index (b64_char (n div 262144)) = Some (n div 262144) \<and>
         b64_index (b64_char (n div 4096 mod 64)) = Some (n div 4096 mod 64) \<and>
         b64_index (b64_char (n div 64 mod 64)) = Some (n div 64 mod 64) \<and>
         b64_index (b64_char (n mod 64)) = Some (n mod 64)"
proof -
  from assms have "n div 262144 < 64"
    by (simp add: div_less_iff_less_mult)
  then show ?thesis
    by (simp add: b64_index_char)
qed

lemma sextet_recompose:
  "(x::nat) div 262144 * 262144 + x div 4096 mod 64 * 4096 + x div 64 mod 64 * 64 + x mod 64 = x"
proof -
  have "x div 64 mod 64 * 64 + x mod 64 = x mod 4096"
    using mod_mult2_eq [of x 64 64] by simp
  moreover have "x div 4096 mod 64 * 4096 + x mod 4096 = x mod 262144"
    using mod_mult2_eq [of x 4096 64] by simp
  moreover have "x div 262144 * 262144 + x mod 262144 = x"
    by simp
  ultimately show ?thesis
    by linarith
qed

lemma b64decode_ref: "b64decode (b64_ref bs) = Some bs"
proof (induction bs rule: b64_ref.induct)
  case (1 a b c rest)
  define n where "n = unat a * 65536 + unat b * 256 + unat c"
  note g = group_digits [of "unat a" "unat b" "unat c", OF unat_byte_lt unat_byte_lt unat_byte_lt,
    folded n_def]
  have idx: "b64_index (b64_char (n div 262144)) = Some (n div 262144) \<and>
    b64_index (b64_char (n div 4096 mod 64)) = Some (n div 4096 mod 64) \<and>
    b64_index (b64_char (n div 64 mod 64)) = Some (n div 64 mod 64) \<and>
    b64_index (b64_char (n mod 64)) = Some (n mod 64)"
    using g unat_byte_lt [of a] by (intro b64_index_group) simp
  have "of_nat (n div 65536) = a" "of_nat (n div 256 mod 256) = b" "of_nat (n mod 256) = c"
    using g by simp_all
  with idx "1.IH" sextet_recompose [of n] show ?case
    by (simp add: Let_def n_def [symmetric])
next
  case (2 a b)
  define n where "n = unat a * 65536 + unat b * 256"
  note g = group_digits [of "unat a" "unat b" 0, OF unat_byte_lt unat_byte_lt, folded n_def]
  have idx: "b64_index (b64_char (n div 262144)) = Some (n div 262144) \<and>
    b64_index (b64_char (n div 4096 mod 64)) = Some (n div 4096 mod 64) \<and>
    b64_index (b64_char (n div 64 mod 64)) = Some (n div 64 mod 64) \<and>
    b64_index (b64_char (n mod 64)) = Some (n mod 64)"
    using g unat_byte_lt [of a] by (intro b64_index_group) simp
  have "of_nat (n div 65536) = a" "of_nat (n div 256 mod 256) = b" and "n mod 64 = 0"
    using g by simp_all
  with idx b64_index_pad sextet_recompose [of n] show ?case
    by (simp add: Let_def n_def [symmetric])
next
  case (3 a)
  define n where "n = unat a * 65536"
  note g = group_digits [of "unat a" 0 0, OF unat_byte_lt, folded n_def]
  have idx: "b64_index (b64_char (n div 262144)) = Some (n div 262144) \<and>
    b64_index (b64_char (n div 4096 mod 64)) = Some (n div 4096 mod 64) \<and>
    b64_index (b64_char (n div 64 mod 64)) = Some (n div 64 mod 64) \<and>
    b64_index (b64_char (n mod 64)) = Some (n mod 64)"
    using g unat_byte_lt [of a] by (intro b64_index_group) simp
  have "of_nat (n div 65536) = a" and "n div 64 mod 64 = 0" "n mod 64 = 0"
    using g by simp_all
  with idx b64_index_pad sextet_recompose [of n] show ?case
    by (simp add: Let_def n_def [symmetric])
next
  case 4
  then show ?case by simp
qed

subsection \<open>Length and alphabet of the output\<close>

lemma length_b64_ref: "length (b64_ref bs) = 4 * ((length bs + 2) div 3)"
proof (induction bs rule: b64_ref.induct)
  case (1 a b c rest)
  have "Suc (Suc (Suc (length rest))) + 2 = (length rest + 2) + 1 * 3"
    by simp
  then have "(length (a # b # c # rest) + 2) div 3 = (length rest + 2) div 3 + 1"
    by (simp only: length_Cons div_add_self2)
  with "1.IH" show ?case
    by (simp add: Let_def)
qed (simp_all add: Let_def)

lemma b64_char_in_table: "i < 64 \<Longrightarrow> b64_char i \<in> set table_b2a_base64"
  using table_facts(2) by (simp add: b64_char_def)

lemma set_b64_ref: "set (b64_ref bs) \<subseteq> insert BASE64_PAD (set table_b2a_base64)"
proof (induction bs rule: b64_ref.induct)
  case (1 a b c rest)
  have "unat a * 65536 + unat b * 256 + unat c < 16777216"
    using unat_byte_lt [of a] unat_byte_lt [of b] unat_byte_lt [of c] by linarith
  then have "(unat a * 65536 + unat b * 256 + unat c) div 262144 < 64"
    by (simp add: div_less_iff_less_mult)
  with "1.IH" show ?case
    by (simp add: Let_def b64_char_in_table)
next
  case (2 a b)
  have "unat a * 65536 + unat b * 256 < 16777216"
    using unat_byte_lt [of a] unat_byte_lt [of b] by linarith
  then have "(unat a * 65536 + unat b * 256) div 262144 < 64"
    by (simp add: div_less_iff_less_mult)
  then show ?case
    by (simp add: Let_def b64_char_in_table)
next
  case (3 a)
  have "unat a * 65536 div 262144 < 64"
    using unat_byte_lt [of a] by (simp add: div_less_iff_less_mult)
  then show ?case
    by (simp add: Let_def b64_char_in_table)
qed simp

lemma b64encode_rfc_examples:
  "b64encode [0x4d, 0x61, 0x6e] = ''TWFu''"
  "b64encode [0x4d, 0x61] = ''TWE=''"
  "b64encode [0x4d] = ''TQ==''"
  by (simp_all add: b64encode_def b2a_base64_def emit_sextets.simps b64_char_def
      table_b2a_base64_def BASE64_PAD_def)

subsection \<open>Properties of \<open>base64.b64encode\<close>\<close>

text \<open>
  Decoding the base64 text of any byte string gives the byte string back: the
  data URL of the download link carries exactly the PNG bytes.
\<close>

lemma b64decode_b64encode: "b64decode (b64encode bs) = Some bs"
  by (simp add: b64encode_def b2a_base64_nat b64_nat_ref b64decode_ref)

text \<open>
  The encoded text has four characters per started group of three bytes, and uses
  only the 64 letters of the alphabet and the pad character.
\<close>

lemma b64encode_shape:
  "length (b64encode bs) = 4 * ((length bs + 2) div 3) \<and>
   set (b64encode bs) \<subseteq> insert BASE64_PAD (set table_b2a_base64)"
  by (simp add: b64encode_def b2a_base64_nat b64_nat_ref length_b64_ref set_b64_ref)

end
