(* ===== verification/Client.thy ===== *)
theory Client
  imports Prelude Prompt
begin

text \<open>
  ImageClient: \<open>create_openai_client\<close> (src/MandalaArt.py, lines 57--64) and
  \<open>generate_mandala_image\<close> (lines 83--114), with the \<open>raise_for_status\<close> check
  of the \<open>requests\<close> library they call (line 105).

  The services and libraries the script calls are not code of this repository; they
  are the fields of a \<open>world\<close> record, one function per call, each returning a
  Python exception (\<open>Inl\<close>) or a value (\<open>Inr\<close>).  A theorem over an arbitrary
  \<open>world\<close> holds whatever value or exception each of these calls returns; the
  Streamlit element calls other than \<open>st.image\<close> are taken not to raise.  What the script
  does besides returning a value is recorded in \<open>effects\<close>: the Streamlit elements
  it emits (\<open>ui_out\<close>) and the external calls it makes, in order (\<open>calls\<close>).
  The \<open>try\<close>/\<open>except Exception\<close> of lines 85/112 is the \<open>case\<close> on the sum
  returned by \<open>mandala_fetch\<close>, the body of the \<open>try\<close> after the client exists.
\<close>

subsection \<open>Exceptions, images and the requests and responses of the services\<close>

datatype exc_class =
    OpenAIError | AuthenticationError | BadRequestError | RateLimitError | APIConnectionError
  | IndexError | MissingSchema | ConnectionError | HTTPError | UnidentifiedImageError
  | AttributeError | OSError | OtherError

record py_exc =
  exc_class :: exc_class
  exc_str :: pystr

record image =
  img_width :: nat
  img_height :: nat
  img_pixels :: "nat list"

record openai_client =
  client_api_key :: pystr

text \<open>The keyword arguments of \<open>client.images.generate\<close> (lines 93--99).\<close>

record gen_request =
  req_model :: pystr
  req_prompt :: pystr
  req_size :: pystr
  req_quality :: pystr
  req_n :: nat

record image_data =
  url :: "pystr option"

record http_response =
  status_code :: nat
  reason :: pystr
  resp_url :: pystr
  content :: "byte list"

text \<open>
  The calls into libraries and services, one field each.  Besides the network calls
  of \<open>generate_mandala_image\<close>, two PIL operations the page performs on a stored
  image may raise: \<open>image.save(buffered, format="PNG")\<close> (line 119,
  \<open>image_save_png\<close>; PIL raises \<open>OSError\<close> for a mode PNG cannot hold, such as
  a CMYK JPEG) and the conversion \<open>st.image\<close> does on a PIL image (line 199,
  \<open>image_show\<close>, \<open>Some\<close> the exception it raises).
\<close>

record world =
  openai_new :: "pystr \<Rightarrow> py_exc + openai_client"
  images_generate :: "openai_client \<Rightarrow> gen_request \<Rightarrow> py_exc + image_data list"
  requests_get :: "pystr option \<Rightarrow> py_exc + http_response"
  image_open :: "byte list \<Rightarrow> py_exc + image"
  image_save_png :: "image \<Rightarrow> py_exc + byte list"
  image_show :: "image \<Rightarrow> py_exc option"

subsection \<open>Effects: Streamlit output and external calls\<close>

text \<open>
  The Streamlit elements the script emits.  The messages, the image and the prompt
  panel are one constructor per call site, with the values their f-strings
  interpolate (the fixed text and emoji of each message are the constructor);
  the \<open>st.spinner\<close> of line 92 is shown only while its block runs and is removed
  when the block exits, normally or by an exception, so it is not an element of the
  finished page.  The page chrome uses the
  generic elements: \<open>st.set_page_config\<close> (\<open>PageConfig\<close> title, icon, layout,
  sidebar state), \<open>st.markdown\<close> with \<open>unsafe_allow_html=True\<close> (\<open>Html\<close>) or
  without (\<open>Markdown\<close>), \<open>st.columns\<close> (\<open>Columns\<close> with the width ratios),
  \<open>st.text_input\<close> (\<open>TextInput\<close> label, password field, \<open>max_chars\<close>) and an
  \<open>st.expander\<close> holding one markdown block (\<open>Expander\<close> label, body).
\<close>

datatype ui =
    Button bool
  | ErrApiKey pystr
  | ErrGenerating pystr
  | Success pystr
  | InfoMissingFields
  | ShowImage image pystr
  | DownloadLink pystr
  | ImageInfo pystr nat nat pystr
  | ShowPrompt pystr
  | InfoPlaceholder
  | PageConfig pystr pystr pystr pystr
  | Html pystr
  | Markdown pystr
  | Columns "nat list"
  | TextInput pystr bool "nat option"
  | Expander pystr pystr

datatype call =
    CallOpenAI pystr
  | CallGenerate gen_request
  | CallGet "pystr option"
  | CallOpen "byte list"

record effects =
  ui_out :: "ui list"
  calls :: "call list"

definition emit :: "ui \<Rightarrow> effects \<Rightarrow> effects" where
  "emit u eff = eff\<lparr>ui_out := ui_out eff @ [u]\<rparr>"

definition record_call :: "call \<Rightarrow> effects \<Rightarrow> effects" where
  "record_call c eff = eff\<lparr>calls := calls eff @ [c]\<rparr>"

lemma emit_record_fields [simp]:
  "ui_out (emit u eff) = ui_out eff @ [u]" "calls (emit u eff) = calls eff"
  "ui_out (record_call c eff) = ui_out eff" "calls (record_call c eff) = calls eff @ [c]"
  by (simp_all add: emit_def record_call_def)

subsection \<open>\<open>str(int)\<close> and \<open>Response.raise_for_status\<close>\<close>

fun nat_str :: "nat \<Rightarrow> pystr" where
  "nat_str n =
     (if n < 10 then [char_of (48 + n)] else nat_str (n div 10) @ [char_of (48 + n mod 10)])"

declare nat_str.simps [simp del]

text \<open>
  \<open>requests.Response.raise_for_status\<close>: a status in 400..499 raises
  \<open>HTTPError("{status} Client Error: {reason} for url: {url}")\<close>, one in
  500..599 the same with \<open>Server Error\<close>; any other status passes.
\<close>

definition raise_for_status :: "http_response \<Rightarrow> py_exc option" where
  "raise_for_status r =
     (if 400 \<le> status_code r \<and> status_code r < 500 then
        Some \<lparr>exc_class = HTTPError,
              exc_str = nat_str (status_code r) @ '' Client Error: '' @ reason r @
                        '' for url: '' @ resp_url r\<rparr>
      else if 500 \<le> status_code r \<and> status_code r < 600 then
        Some \<lparr>exc_class = HTTPError,
              exc_str = nat_str (status_code r) @ '' Server Error: '' @ reason r @
                        '' for url: '' @ resp_url r\<rparr>
      else None)"

subsection \<open>\<open>create_openai_client\<close>\<close>

definition create_openai_client ::
  "world \<Rightarrow> pystr \<Rightarrow> effects \<Rightarrow> openai_client option \<times> effects" where
  "create_openai_client w api_key eff =
     (let eff1 = record_call (CallOpenAI api_key) eff
      in case openai_new w api_key of
           Inl e \<Rightarrow> (None, emit (ErrApiKey (exc_str e)) eff1)
         | Inr client \<Rightarrow> (Some client, eff1))"

subsection \<open>\<open>generate_mandala_image\<close>\<close>

definition mandala_request :: "pystr \<Rightarrow> gen_request" where
  "mandala_request prompt =
     \<lparr>req_model = ''dall-e-3'', req_prompt = prompt, req_size = ''1024x1024'',
      req_quality = ''standard'', req_n = 1\<rparr>"

definition index_error :: py_exc where
  "index_error = \<lparr>exc_class = IndexError, exc_str = ''list index out of range''\<rparr>"

text \<open>
  The body of the \<open>try\<close> from line 92 on: the generation call,
  \<open>response.data[0].url\<close> (an empty list raises \<open>IndexError\<close>), the download,
  \<open>raise_for_status\<close>, and \<open>Image.open\<close>.  The first exception ends it.
\<close>

definition mandala_fetch ::
  "world \<Rightarrow> openai_client \<Rightarrow> pystr \<Rightarrow> effects \<Rightarrow> (py_exc + image) \<times> effects" where
  "mandala_fetch w client prompt eff =
     (let eff1 = record_call (CallGenerate (mandala_request prompt)) eff
      in case images_generate w client (mandala_request prompt) of
           Inl e \<Rightarrow> (Inl e, eff1)
         | Inr [] \<Rightarrow> (Inl index_error, eff1)
         | Inr (d # _) \<Rightarrow>
             (let image_url = url d;
                  eff2 = record_call (CallGet image_url) eff1
              in case requests_get w image_url of
                   Inl e \<Rightarrow> (Inl e, eff2)
                 | Inr img_response \<Rightarrow>
                     (case raise_for_status img_response of
                        Some e \<Rightarrow> (Inl e, eff2)
                      | None \<Rightarrow>
                          (let eff3 = record_call (CallOpen (content img_response)) eff2
                           in case image_open w (content img_response) of
                                Inl e \<Rightarrow> (Inl e, eff3)
                              | Inr img \<Rightarrow> (Inr img, eff3)))))"

definition generate_mandala_image ::
  "world \<Rightarrow> pystr \<Rightarrow> pystr \<Rightarrow> effects \<Rightarrow> (image \<times> pystr) option \<times> effects" where
  "generate_mandala_image w api_key inspiration_word eff =
     (case create_openai_client w api_key eff of
        (None, eff1) \<Rightarrow> (None, eff1)
      | (Some client, eff1) \<Rightarrow>
          (let prompt = generate_mandala_prompt inspiration_word
           in case mandala_fetch w client prompt eff1 of
                (Inl e, eff2) \<Rightarrow> (None, emit (ErrGenerating (exc_str e)) eff2)
              | (Inr img, eff2) \<Rightarrow> (Some (img, prompt), eff2)))"

subsection \<open>The contract of spec section 4.2\<close>

text \<open>
  \<open>generate(credential, prompt) -> Result<DecodedImage, GenerationError>\<close>, with
  the spec's error taxonomy: a rejected credential, an upstream failure to produce
  an asset, a failed retrieval, undecodable bytes.  An exception of
  \<open>images.generate\<close> is an authentication error when its class says so.
\<close>

datatype gen_error = AuthError pystr | GenerationError pystr | FetchError pystr | DecodeError pystr

definition image_client_spec :: "world \<Rightarrow> pystr \<Rightarrow> pystr \<Rightarrow> gen_error + image" where
  "image_client_spec w credential prompt =
     (case openai_new w credential of
        Inl e \<Rightarrow> Inl (AuthError (exc_str e))
      | Inr client \<Rightarrow>
          (case images_generate w client (mandala_request prompt) of
             Inl e \<Rightarrow>
               Inl (if exc_class e = AuthenticationError then AuthError (exc_str e)
                    else GenerationError (exc_str e))
           | Inr [] \<Rightarrow> Inl (GenerationError (exc_str index_error))
           | Inr (d # _) \<Rightarrow>
               (case requests_get w (url d) of
                  Inl e \<Rightarrow> Inl (FetchError (exc_str e))
                | Inr r \<Rightarrow>
                    (case raise_for_status r of
                       Some e \<Rightarrow> Inl (FetchError (exc_str e))
                     | None \<Rightarrow>
                         (case image_open w (content r) of
                            Inl e \<Rightarrow> Inl (DecodeError (exc_str e))
                          | Inr img \<Rightarrow> Inr img)))))"

lemmas client_defs = generate_mandala_image_def create_openai_client_def mandala_fetch_def
  image_client_spec_def

lemmas client_splits = sum.splits list.splits option.splits prod.splits

lemma mandala_fetch_result:
  "fst (mandala_fetch w client prompt eff) =
     (case images_generate w client (mandala_request prompt) of
        Inl e \<Rightarrow> Inl e
      | Inr [] \<Rightarrow> Inl index_error
      | Inr (d # _) \<Rightarrow>
          (case requests_get w (url d) of
             Inl e \<Rightarrow> Inl e
           | Inr r \<Rightarrow>
               (case raise_for_status r of
                  Some e \<Rightarrow> Inl e
                | None \<Rightarrow> image_open w (content r))))"
  by (simp add: mandala_fetch_def Let_def split: client_splits)

lemma generate_mandala_image_value:
  "fst (generate_mandala_image w key word eff) =
     (case image_client_spec w key (generate_mandala_prompt word) of
        Inl _ \<Rightarrow> None
      | Inr img \<Rightarrow> Some (img, generate_mandala_prompt word))"
proof (cases "openai_new w key")
  case (Inl e)
  then show ?thesis by (simp add: client_defs)
next
  case (Inr client)
  let ?P = "generate_mandala_prompt word"
  let ?eff1 = "record_call (CallOpenAI key) eff"
  obtain r eff2 where f: "mandala_fetch w client ?P ?eff1 = (r, eff2)"
    by fastforce
  then have "fst (generate_mandala_image w key word eff) =
             (case r of Inl _ \<Rightarrow> None | Inr img \<Rightarrow> Some (img, ?P))"
    using Inr by (cases r) (simp_all add: generate_mandala_image_def create_openai_client_def Let_def)
  moreover have "r = fst (mandala_fetch w client ?P ?eff1)"
    using f by simp
  ultimately show ?thesis
    using Inr by (auto simp: mandala_fetch_result image_client_spec_def split: client_splits)
qed


lemma mandala_fetch_ui: "ui_out (snd (mandala_fetch w client prompt eff)) = ui_out eff"
  by (simp add: mandala_fetch_def Let_def split: client_splits)

lemma mandala_fetch_calls:
  "\<exists>cs u bs. calls (snd (mandala_fetch w client prompt eff)) = calls eff @ cs \<and>
     prefix cs [CallGenerate (mandala_request prompt), CallGet u, CallOpen bs]"
  by (fastforce simp: mandala_fetch_def Let_def split: client_splits)

lemma generate_mandala_image_Inl:
  "openai_new w key = Inl e \<Longrightarrow>
   generate_mandala_image w key word eff =
     (None, emit (ErrApiKey (exc_str e)) (record_call (CallOpenAI key) eff))"
  by (simp add: generate_mandala_image_def create_openai_client_def)

lemma generate_mandala_image_Inr:
  assumes "openai_new w key = Inr client"
  shows "snd (generate_mandala_image w key word eff) =
    (case mandala_fetch w client (generate_mandala_prompt word) (record_call (CallOpenAI key) eff) of
       (Inl e, eff2) \<Rightarrow> emit (ErrGenerating (exc_str e)) eff2
     | (Inr _, eff2) \<Rightarrow> eff2)"
  using assms
  by (simp add: generate_mandala_image_def create_openai_client_def Let_def split: prod.splits sum.splits)

lemma generate_mandala_image_calls_fetch:
  "openai_new w key = Inr client \<Longrightarrow>
   calls (snd (generate_mandala_image w key word eff)) =
   calls (snd (mandala_fetch w client (generate_mandala_prompt word) (record_call (CallOpenAI key) eff)))"
  by (simp add: generate_mandala_image_Inr split: prod.splits sum.splits)

lemma generate_mandala_image_ui:
  "(fst (generate_mandala_image w key word eff) \<noteq> None \<longrightarrow>
     ui_out (snd (generate_mandala_image w key word eff)) = ui_out eff) \<and>
   (fst (generate_mandala_image w key word eff) = None \<longrightarrow>
     (\<exists>m. ui_out (snd (generate_mandala_image w key word eff)) = ui_out eff @ [ErrApiKey m] \<or>
          ui_out (snd (generate_mandala_image w key word eff)) = ui_out eff @ [ErrGenerating m]))"
proof (cases "openai_new w key")
  case (Inl e)
  then show ?thesis by (simp add: generate_mandala_image_Inl)
next
  case (Inr client)
  let ?f = "mandala_fetch w client (generate_mandala_prompt word) (record_call (CallOpenAI key) eff)"
  obtain r eff2 where f: "?f = (r, eff2)"
    by fastforce
  have ui: "ui_out eff2 = ui_out eff"
    using mandala_fetch_ui [of w client "generate_mandala_prompt word" "record_call (CallOpenAI key) eff"] f
    by simp
  show ?thesis
    using Inr f ui
    by (cases r) (auto simp: generate_mandala_image_def create_openai_client_def Let_def)
qed

text \<open>The message the spec's error carries: \<open>str(e)\<close> of the exception.\<close>

fun err_msg :: "gen_error \<Rightarrow> pystr" where
  "err_msg (AuthError m) = m"
| "err_msg (GenerationError m) = m"
| "err_msg (FetchError m) = m"
| "err_msg (DecodeError m) = m"

subsection \<open>Properties of the image client\<close>

lemma generate_mandala_image_reports:
  "case image_client_spec w key (generate_mandala_prompt word) of
     Inl err \<Rightarrow> ErrApiKey (err_msg err) \<in> set (ui_out (snd (generate_mandala_image w key word eff))) \<or>
               ErrGenerating (err_msg err) \<in> set (ui_out (snd (generate_mandala_image w key word eff)))
   | Inr _ \<Rightarrow> True"
  by (auto simp: client_defs Let_def split: client_splits)

text \<open>
  C5.  \<open>generate_mandala_image\<close> implements the contract of spec section 4.2: it
  returns the image, paired with the prompt built from the word, exactly when the
  contract succeeds, and on every error of the contract it shows that error's
  message (\<open>str(e)\<close>) to the user, as the API-key error or the generation error.
\<close>

theorem generate_mandala_image_refines:
  "fst (generate_mandala_image w key word eff) =
     (case image_client_spec w key (generate_mandala_prompt word) of
        Inl _ \<Rightarrow> None
      | Inr img \<Rightarrow> Some (img, generate_mandala_prompt word)) \<and>
   (case image_client_spec w key (generate_mandala_prompt word) of
      Inl err \<Rightarrow> ErrApiKey (err_msg err) \<in> set (ui_out (snd (generate_mandala_image w key word eff))) \<or>
                ErrGenerating (err_msg err) \<in> set (ui_out (snd (generate_mandala_image w key word eff)))
    | Inr _ \<Rightarrow> True)"
  using generate_mandala_image_value generate_mandala_image_reports by blast

text \<open>
  C6.  The calls \<open>generate_mandala_image\<close> makes are a prefix of: create the client
  with the key, one generation request with the fixed parameters (DALL-E 3, one
  1024x1024 image of standard quality, the prompt of the word), one download of the
  returned locator, one decode of the downloaded bytes.  There is no retry.
\<close>

theorem generate_mandala_image_calls:
  "\<exists>cs u bs. calls (snd (generate_mandala_image w key word eff)) = calls eff @ cs \<and>
     prefix cs [CallOpenAI key,
                CallGenerate \<lparr>req_model = ''dall-e-3'', req_prompt = generate_mandala_prompt word,
                              req_size = ''1024x1024'', req_quality = ''standard'', req_n = 1\<rparr>,
                CallGet u, CallOpen bs]"
proof (cases "openai_new w key")
  case (Inl e)
  then show ?thesis
    by (auto simp: generate_mandala_image_Inl)
next
  case (Inr client)
  obtain cs u bs where
    "calls (snd (mandala_fetch w client (generate_mandala_prompt word) (record_call (CallOpenAI key) eff))) =
       calls eff @ [CallOpenAI key] @ cs"
    and "prefix cs [CallGenerate (mandala_request (generate_mandala_prompt word)), CallGet u, CallOpen bs]"
    using mandala_fetch_calls [of w client "generate_mandala_prompt word"
        "record_call (CallOpenAI key) eff"] by auto
  with Inr show ?thesis
    by (auto simp: generate_mandala_image_calls_fetch mandala_request_def)
qed

text \<open>
  \<open>raise_for_status\<close> raises exactly for the statuses 400..599, always an
  \<open>HTTPError\<close> whose message starts with the status code.
\<close>

lemma raise_for_status_iff:
  "(raise_for_status r = None \<longleftrightarrow> \<not> (400 \<le> status_code r \<and> status_code r < 600)) \<and>
   (case raise_for_status r of
      None \<Rightarrow> True
    | Some e \<Rightarrow> exc_class e = HTTPError \<and> prefix (nat_str (status_code r)) (exc_str e))"
  by (auto simp: raise_for_status_def)

end
