(* ===== verification/Download.thy ===== *)
theory Download
  imports Client Base64
begin

text \<open>
  DownloadEncoder: \<open>get_image_download_link\<close> (src/MandalaArt.py, lines 116--122)
  and the file name built in \<open>main\<close> (lines 205--207).  The link is the literal
  HTML of line 122 around two interpolations: the base64 text of the PNG bytes
  (\<open>image.save(buffered, format="PNG")\<close> is the world's \<open>image_save_png\<close>,
  whose exception propagates to the caller) and the file name.  The emoji of the
  button label, one code point outside the Latin-1 range of \<open>char\<close>, is written
  as its four UTF-8 bytes.

  \<open>link_payload\<close> and \<open>download_attr_source\<close> read the HTML the way a browser's
  tokenizer delimits it: the \<open>href\<close> data URL ends at the first double quote, and
  so does the source text of the \<open>download\<close> attribute.  They are
  specification-side readers of the output.  They do not decode character
  references: the browser further replaces \<open>&amp;quot;\<close>, \<open>&amp;amp;\<close> and the like
  in the attribute's text, which the base64 payload never contains.
\<close>

definition dq :: char where
  "dq = CHR 0x22"

definition emoji_inbox :: pystr where
  "emoji_inbox = [CHR 0xF0, CHR 0x9F, CHR 0x93, CHR 0xA5]"

definition link_head :: pystr where
  "link_head = ''<a href='' @ [dq] @ ''data:image/png;base64,''"

definition link_mid :: pystr where
  "link_mid = [dq] @ '' download='' @ [dq]"

definition link_tail :: pystr where
  "link_tail =
     [dq] @ '' style='' @ [dq] @ ''text-decoration: none;'' @ [dq] @ ''><button style='' @ [dq] @
     ''background: linear-gradient(45deg, #28a745, #20c997); color: white; border: none; '' @
     ''padding: 0.75rem 2rem; font-size: 1.1rem; border-radius: 25px; cursor: pointer; '' @
     ''transition: all 0.3s ease;'' @ [dq] @ ''>'' @ emoji_inbox @ '' Download Mandala</button></a>''"

definition get_image_download_link :: "world \<Rightarrow> image \<Rightarrow> pystr \<Rightarrow> py_exc + pystr" where
  "get_image_download_link w img filename =
     (case image_save_png w img of
        Inl e \<Rightarrow> Inl e
      | Inr buffered \<Rightarrow>
          (let img_str = b64encode buffered
           in Inr (link_head @ img_str @ link_mid @ filename @ link_tail)))"

subsection \<open>The file name: \<open>datetime.now().strftime("%Y%m%d_%H%M%S")\<close>\<close>

record timestamp =
  ts_year :: nat
  ts_month :: nat
  ts_day :: nat
  ts_hour :: nat
  ts_minute :: nat
  ts_second :: nat

definition zpad :: "nat \<Rightarrow> nat \<Rightarrow> pystr" where
  "zpad k n = replicate (k - length (nat_str n)) (CHR ''0'') @ nat_str n"

definition strftime_stamp :: "timestamp \<Rightarrow> pystr" where
  "strftime_stamp t =
     zpad 4 (ts_year t) @ zpad 2 (ts_month t) @ zpad 2 (ts_day t) @ ''_'' @
     zpad 2 (ts_hour t) @ zpad 2 (ts_minute t) @ zpad 2 (ts_second t)"

definition mandala_filename :: "pystr \<Rightarrow> timestamp \<Rightarrow> pystr" where
  "mandala_filename word t = ''mandala_'' @ word @ ''_'' @ strftime_stamp t @ ''.png''"

subsection \<open>Reading the link back\<close>

definition link_payload :: "pystr \<Rightarrow> pystr option" where
  "link_payload html =
     (if prefix link_head html
      then Some (takeWhile (\<lambda>c. c \<noteq> dq) (drop (length link_head) html))
      else None)"

definition download_attr_source :: "pystr \<Rightarrow> pystr option" where
  "download_attr_source html =
     (case link_payload html of
        None \<Rightarrow> None
      | Some p \<Rightarrow>
          (let rest = drop (length link_head + length p) html
           in if prefix link_mid rest
              then Some (takeWhile (\<lambda>c. c \<noteq> dq) (drop (length link_mid) rest))
              else None))"

subsection \<open>Lemmas\<close>

lemma dq_notin_b64encode: "dq \<notin> set (b64encode bs)"
proof -
  have "dq \<notin> insert BASE64_PAD (set table_b2a_base64)"
    by (simp add: dq_def BASE64_PAD_def table_b2a_base64_def)
  then show ?thesis
    using set_b64_ref [of bs] by (auto simp: b64encode_def b2a_base64_nat b64_nat_ref)
qed

lemma nat_str_digits: "set (nat_str n) \<subseteq> {c. 48 \<le> (of_char c :: nat) \<and> (of_char c :: nat) \<le> 57}"
proof (induction n rule: nat_str.induct)
  case (1 n)
  have "(48 + n mod 10) mod 256 = 48 + n mod 10" "n < 10 \<Longrightarrow> (48 + n) mod 256 = 48 + n"
    by simp_all
  with "1.IH" show ?case
    by (subst nat_str.simps) (auto simp: of_char_of)
qed

lemma dq_notin_stamp: "dq \<notin> set (strftime_stamp t)"
proof -
  have "dq \<notin> set (nat_str n)" for n
    using nat_str_digits [of n] by (auto simp: dq_def)
  then show ?thesis
    by (simp add: strftime_stamp_def zpad_def dq_def)
qed

lemma takeWhile_not_dq: "dq \<notin> set xs \<Longrightarrow> takeWhile (\<lambda>c. c \<noteq> dq) (xs @ dq # ys) = xs"
  by (induction xs) auto

lemma get_image_download_link_Inl:
  "image_save_png w img = Inl e \<Longrightarrow> get_image_download_link w img fn = Inl e"
  by (simp add: get_image_download_link_def)

lemma get_image_download_link_Inr:
  "image_save_png w img = Inr bs \<Longrightarrow>
   get_image_download_link w img fn = Inr (link_head @ b64encode bs @ link_mid @ fn @ link_tail)"
  by (simp add: get_image_download_link_def)

lemma get_image_download_link_cases:
  "(\<exists>e. image_save_png w img = Inl e \<and> get_image_download_link w img fn = Inl e) \<or>
   (\<exists>bs. image_save_png w img = Inr bs \<and>
      get_image_download_link w img fn = Inr (link_head @ b64encode bs @ link_mid @ fn @ link_tail))"
  by (cases "image_save_png w img") (simp_all add: get_image_download_link_def)

lemma link_payload_link:
  "link_payload (link_head @ b64encode bs @ link_mid @ fn @ link_tail) = Some (b64encode bs)"
  using dq_notin_b64encode [of bs]
  by (simp add: link_payload_def link_mid_def takeWhile_not_dq)

lemma download_attr_link:
  "download_attr_source (link_head @ b64encode bs @ link_mid @ fn @ link_tail) =
   Some (takeWhile (\<lambda>c. c \<noteq> dq) fn)"
proof -
  have "takeWhile (\<lambda>c. c \<noteq> dq) (fn @ link_tail) = takeWhile (\<lambda>c. c \<noteq> dq) fn"
    by (induction fn) (simp_all add: link_tail_def)
  then show ?thesis
    unfolding download_attr_source_def link_payload_link
    by (simp add: Let_def)
qed

text \<open>
  C3.  When PIL writes the image as PNG bytes, the function returns a link, and the
  browser's reading of the data URL in it, decoded, gives exactly those bytes,
  whatever the file name.
\<close>

theorem download_link_roundtrip:
  assumes "image_save_png w img = Inr bs"
  shows "\<exists>html. get_image_download_link w img fn = Inr html \<and>
           Option.bind (link_payload html) b64decode = Some bs"
  using assms by (simp add: get_image_download_link_Inr link_payload_link b64decode_b64encode)

text \<open>
  C4.  The user's inspiration word is pasted into the \<open>download\<close> attribute of
  HTML rendered with \<open>unsafe_allow_html=True\<close> without escaping.  In every link
  the function returns, the attribute's source text is the file name cut at its
  first double quote, so it is the whole file name exactly when the word has no
  double quote; a word with one ends the attribute early and the rest of it is
  read as further HTML.  (Character references in the word, such as
  \<open>&amp;quot;\<close>, are decoded by the browser afterwards: a further way the saved
  name can differ from the word, not covered here.)
\<close>

theorem download_attr_filename:
  assumes "get_image_download_link w img (mandala_filename word t) = Inr html"
  shows "download_attr_source html = Some (takeWhile (\<lambda>c. c \<noteq> dq) (mandala_filename word t)) \<and>
         (download_attr_source html = Some (mandala_filename word t) \<longleftrightarrow> dq \<notin> set word)"
proof -
  obtain bs where "html = link_head @ b64encode bs @ link_mid @ mandala_filename word t @ link_tail"
    using assms get_image_download_link_cases [of w img "mandala_filename word t"] by auto
  then have attr: "download_attr_source html = Some (takeWhile (\<lambda>c. c \<noteq> dq) (mandala_filename word t))"
    by (simp add: download_attr_link)
  have "dq \<notin> set (mandala_filename word t) \<longleftrightarrow> dq \<notin> set word"
    using dq_notin_stamp [of t] by (auto simp: mandala_filename_def dq_def)
  with attr show ?thesis
    by (auto simp: takeWhile_eq_all_conv)
qed

subsection \<open>The file name's format\<close>

text \<open>
  The ranges of the fields of a Python \<open>datetime\<close>, and a reader that takes the
  inspiration word back out of a file name of the form of line 207.
\<close>

definition valid_timestamp :: "timestamp \<Rightarrow> bool" where
  "valid_timestamp t \<longleftrightarrow>
     1 \<le> ts_year t \<and> ts_year t \<le> 9999 \<and> 1 \<le> ts_month t \<and> ts_month t \<le> 12 \<and>
     1 \<le> ts_day t \<and> ts_day t \<le> 31 \<and> ts_hour t \<le> 23 \<and> ts_minute t \<le> 59 \<and> ts_second t \<le> 59"

definition filename_word :: "pystr \<Rightarrow> pystr option" where
  "filename_word fn =
     (if prefix ''mandala_'' fn \<and> suffix ''.png'' fn \<and> 28 \<le> length fn
      then Some (take (length fn - 28) (drop 8 fn)) else None)"

lemma length_nat_str: "n < 10 ^ k \<Longrightarrow> 0 < k \<Longrightarrow> length (nat_str n) \<le> k"
proof (induction n arbitrary: k rule: nat_str.induct)
  case (1 n)
  show ?case
  proof (cases "n < 10")
    case True
    with "1.prems" show ?thesis
      by (simp add: nat_str.simps)
  next
    case False
    obtain k' where k: "k = Suc k'"
      using "1.prems" by (cases k) auto
    have "0 < k'"
      using "1.prems" False k by (cases k') auto
    with "1.prems" k have "n div 10 < 10 ^ k'"
      by (simp add: div_less_iff_less_mult mult.commute)
    with "1.IH" False \<open>0 < k'\<close> have "length (nat_str (n div 10)) \<le> k'"
      by blast
    with False k show ?thesis
      by (simp add: nat_str.simps [of n])
  qed
qed

lemma length_zpad: "n < 10 ^ k \<Longrightarrow> 0 < k \<Longrightarrow> length (zpad k n) = k"
  using length_nat_str [of n k] by (simp add: zpad_def)

lemma length_strftime_stamp: "valid_timestamp t \<Longrightarrow> length (strftime_stamp t) = 15"
  by (simp add: strftime_stamp_def valid_timestamp_def length_zpad)

text \<open>
  C22.  For every date and time Python's \<open>datetime\<close> can hold, the stamp of line 206
  has exactly 15 characters, so the file name of line 207 is the word between the
  fixed prefix \<open>mandala_\<close> and a suffix of fixed length: the word can be read back
  from the file name.
\<close>

theorem mandala_filename_roundtrip:
  assumes "valid_timestamp t"
  shows "length (strftime_stamp t) = 15 \<and> filename_word (mandala_filename word t) = Some word"
proof -
  have len: "length (strftime_stamp t) = 15"
    using assms by (rule length_strftime_stamp)
  have "prefix ''mandala_'' (mandala_filename word t)" "suffix ''.png'' (mandala_filename word t)"
    by (simp_all add: mandala_filename_def prefix_def suffix_def)
  with len show ?thesis
    by (simp add: filename_word_def mandala_filename_def)
qed

end
