(* ===== verification/Page.thy ===== *)
theory Page
  imports Client
begin

text \<open>
  The page chrome of src/MandalaArt.py: everything the script shows besides the
  messages, the image and the download link.  It is the module-level code run on
  every script run (\<open>st.set_page_config\<close>, lines 11--16, and the style sheet, lines
  19--56), the header and the two-column layout of \<open>main\<close> (lines 126--130), the
  title and the two text inputs of the left column (lines 133--148), its two help
  expanders (lines 170--188), the titles of the right column and of its download
  section (lines 191, 202--203, 221), the example words shown while no image is
  stored (lines 231--239) and the footer (lines 242--272).

  Every literal is written out as the Python \<open>str\<close> value of the source, byte for
  byte: triple-quoted strings keep their leading newline and indentation, and each
  character outside ASCII (the emoji) is written as its UTF-8 bytes.  Each
  operation appends the elements of its lines, in order, to the page.
\<close>

subsection \<open>The literals\<close>

definition custom_css :: pystr where
  "custom_css =
     [CHR 0x0A] @
     ''<style>'' @ [CHR 0x0A] @
     ''    .main-header {'' @ [CHR 0x0A] @
     ''        text-align: center;'' @ [CHR 0x0A] @
     ''        color: #2E2E2E;'' @ [CHR 0x0A] @
     ''        font-size: 3rem;'' @ [CHR 0x0A] @
     ''        margin-bottom: 2rem;'' @ [CHR 0x0A] @
     ''        text-shadow: 2px 2px 4px rgba(0,0,0,0.1);'' @ [CHR 0x0A] @
     ''    }'' @ [CHR 0x0A] @
     ''    .subtitle {'' @ [CHR 0x0A] @
     ''        text-align: center;'' @ [CHR 0x0A] @
     ''        color: #666;'' @ [CHR 0x0A] @
     ''        font-size: 1.2rem;'' @ [CHR 0x0A] @
     ''        margin-bottom: 3rem;'' @ [CHR 0x0A] @
     ''    }'' @ [CHR 0x0A] @
     ''    .stButton > button {'' @ [CHR 0x0A] @
     ''        background: linear-gradient(45deg, #2E2E2E, #4A4A4A);'' @ [CHR 0x0A] @
     ''        color: white;'' @ [CHR 0x0A] @
     ''        border: none;'' @ [CHR 0x0A] @
     ''        padding: 0.75rem 2rem;'' @ [CHR 0x0A] @
     ''        font-size: 1.1rem;'' @ [CHR 0x0A] @
     ''        border-radius: 25px;'' @ [CHR 0x0A] @
     ''        transition: all 0.3s ease;'' @ [CHR 0x0A] @
     ''        width: 100%;'' @ [CHR 0x0A] @
     ''    }'' @ [CHR 0x0A] @
     ''    .stButton > button:hover {'' @ [CHR 0x0A] @
     ''        transform: translateY(-2px);'' @ [CHR 0x0A] @
     ''        box-shadow: 0 5px 15px rgba(0,0,0,0.2);'' @ [CHR 0x0A] @
     ''    }'' @ [CHR 0x0A] @
     ''    .download-section {'' @ [CHR 0x0A] @
     ''        background: #f8f9fa;'' @ [CHR 0x0A] @
     ''        padding: 1.5rem;'' @ [CHR 0x0A] @
     ''        border-radius: 10px;'' @ [CHR 0x0A] @
     ''        margin-top: 2rem;'' @ [CHR 0x0A] @
     ''    }'' @ [CHR 0x0A] @
     ''</style>'' @ [CHR 0x0A]"

definition header_html :: pystr where
  "header_html =
     ''<h1 class='' @ [CHR 0x22] @ ''main-header'' @ [CHR 0x22] @ ''>'' @ [CHR 0xF0, CHR 0x9F, CHR 0x8E, CHR 0xA8] @ '' Mandala Art Generator</h1>''"

definition subtitle_html :: pystr where
  "subtitle_html =
     ''<p class='' @ [CHR 0x22] @ ''subtitle'' @ [CHR 0x22] @ ''>Transform any word into a beautiful black and white mandala using AI</p>''"

definition col1_title :: pystr where
  "col1_title =
     ''### '' @ [CHR 0xF0, CHR 0x9F, CHR 0x92, CHR 0xAD] @ '' Your Inspiration''"

definition key_input_label :: pystr where
  "key_input_label =
     [CHR 0xF0, CHR 0x9F, CHR 0x94, CHR 0x91] @ '' Enter your OpenAI API Key:''"

definition word_input_label :: pystr where
  "word_input_label =
     [CHR 0xF0, CHR 0x9F, CHR 0x92, CHR 0xA1] @ '' Enter a word that inspires you:''"

definition api_help_label :: pystr where
  "api_help_label =
     [CHR 0xF0, CHR 0x9F, CHR 0x94, CHR 0xA7] @ '' How to get your OpenAI API Key''"

definition api_help_body :: pystr where
  "api_help_body =
     [CHR 0x0A] @
     ''            1. Go to [OpenAI Platform](https://platform.openai.com/api-keys)'' @ [CHR 0x0A] @
     ''            2. Sign in or create an account'' @ [CHR 0x0A] @
     ''            3. Click '' @ [CHR 0x22] @ ''Create new secret key'' @ [CHR 0x22, CHR 0x0A] @
     ''            4. Copy the key and paste it above'' @ [CHR 0x0A] @
     ''            5. Make sure you have credits in your OpenAI account'' @ [CHR 0x0A] @
     ''            '' @ [CHR 0x0A] @
     ''            **Note:** Your API key is never stored and is only used for this generation.'' @ [CHR 0x0A] @
     ''            ''"

definition settings_label :: pystr where
  "settings_label =
     [CHR 0xE2, CHR 0x9A, CHR 0x99, CHR 0xEF, CHR 0xB8, CHR 0x8F] @ '' Generation Settings''"

definition settings_body :: pystr where
  "settings_body =
     [CHR 0x0A] @
     ''            **Model:** DALL-E 3  '' @ [CHR 0x0A] @
     ''            **Size:** 1024x1024 pixels  '' @ [CHR 0x0A] @
     ''            **Style:** Black and white mandala  '' @ [CHR 0x0A] @
     ''            **Quality:** Standard  '' @ [CHR 0x0A] @
     ''            ''"

definition col2_title :: pystr where
  "col2_title =
     ''### '' @ [CHR 0xF0, CHR 0x9F, CHR 0x96, CHR 0xBC, CHR 0xEF, CHR 0xB8, CHR 0x8F] @ '' Your Mandala''"

definition download_open :: pystr where
  "download_open =
     ''<div class='' @ [CHR 0x22] @ ''download-section'' @ [CHR 0x22] @ ''>''"

definition download_title :: pystr where
  "download_title =
     ''### '' @ [CHR 0xF0, CHR 0x9F, CHR 0x93, CHR 0xA5] @ '' Download Your Mandala''"

definition download_close :: pystr where
  "download_close =
     ''</div>''"

definition examples_title :: pystr where
  "examples_title =
     ''### '' @ [CHR 0xF0, CHR 0x9F, CHR 0x8C, CHR 0x9F] @ '' Example Mandalas''"

definition examples_body :: pystr where
  "examples_body =
     [CHR 0x0A] @
     ''            Try these inspiring words:'' @ [CHR 0x0A] @
     ''            - **Peace** - Flowing, calm patterns'' @ [CHR 0x0A] @
     ''            - **Nature** - Organic, leaf-like designs  '' @ [CHR 0x0A] @
     ''            - **Wisdom** - Ancient, symbolic elements'' @ [CHR 0x0A] @
     ''            - **Love** - Heart-centered, warm patterns'' @ [CHR 0x0A] @
     ''            - **Strength** - Bold, powerful geometry'' @ [CHR 0x0A] @
     ''            ''"

definition footer_rule :: pystr where
  "footer_rule =
     ''---''"

definition tips_title :: pystr where
  "tips_title =
     ''### '' @ [CHR 0xF0, CHR 0x9F, CHR 0x92, CHR 0xA1] @ '' Tips for Better Results''"

definition tips_words :: pystr where
  "tips_words =
     [CHR 0x0A] @
     ''        **'' @ [CHR 0xF0, CHR 0x9F, CHR 0x8E, CHR 0xAF] @ '' Choose Meaningful Words**'' @ [CHR 0x0A] @
     ''        - Abstract concepts work well'' @ [CHR 0x0A] @
     ''        - Emotions and feelings'' @ [CHR 0x0A] @
     ''        - Nature elements'' @ [CHR 0x0A] @
     ''        ''"

definition tips_printing :: pystr where
  "tips_printing =
     [CHR 0x0A] @
     ''        **'' @ [CHR 0xF0, CHR 0x9F, CHR 0x96, CHR 0xA8, CHR 0xEF, CHR 0xB8, CHR 0x8F] @ '' Printing Tips**'' @ [CHR 0x0A] @
     ''        - Use high-quality paper'' @ [CHR 0x0A] @
     ''        - Print in actual size'' @ [CHR 0x0A] @
     ''        - Perfect for coloring books'' @ [CHR 0x0A] @
     ''        ''"

definition tips_usage :: pystr where
  "tips_usage =
     [CHR 0x0A] @
     ''        **'' @ [CHR 0xF0, CHR 0x9F, CHR 0x92, CHR 0x9D] @ '' Usage Ideas**'' @ [CHR 0x0A] @
     ''        - Meditation and mindfulness'' @ [CHR 0x0A] @
     ''        - Adult coloring books'' @ [CHR 0x0A] @
     ''        - Wall art and decoration'' @ [CHR 0x0A] @
     ''        ''"

definition privacy_note :: pystr where
  "privacy_note =
     [CHR 0xF0, CHR 0x9F, CHR 0x94, CHR 0x92] @ '' **Privacy Note:** Your API key is never stored and is only used temporarily for image generation.''"

subsection \<open>The chrome operations\<close>

definition emit_all :: "ui list \<Rightarrow> effects \<Rightarrow> effects" where
  "emit_all us eff = eff\<lparr>ui_out := ui_out eff @ us\<rparr>"

definition page_config :: ui where
  "page_config = PageConfig ''Mandala Art Generator'' [CHR 0xF0, CHR 0x9F, CHR 0x8E, CHR 0xA8] ''wide'' ''expanded''"

text \<open>Lines 11--56: run at module level, before \<open>main()\<close>, on every run.\<close>

definition module_prelude :: "effects \<Rightarrow> effects" where
  "module_prelude eff = emit_all [page_config, Html custom_css] eff"

text \<open>Lines 126--130: the header and \<open>st.columns([1, 1])\<close>.\<close>

definition main_header :: "effects \<Rightarrow> effects" where
  "main_header eff = emit_all [Html header_html, Html subtitle_html, Columns [1, 1]] eff"

text \<open>
  Lines 133--148: the left column's title and its two text inputs, the key as a
  password field and the word with \<open>max_chars=50\<close>.  Their values are the
  \<open>in_api_key\<close> and \<open>in_word\<close> fields of the run's inputs.
\<close>

definition col1_inputs :: "effects \<Rightarrow> effects" where
  "col1_inputs eff =
     emit_all [Markdown col1_title, TextInput key_input_label True None,
               TextInput word_input_label False (Some 50)] eff"

text \<open>Lines 170--188: the two expanders under the button.\<close>

definition col1_help :: "effects \<Rightarrow> effects" where
  "col1_help eff =
     emit_all [Expander api_help_label api_help_body, Expander settings_label settings_body] eff"

text \<open>Lines 231--239: shown under the placeholder while no image is stored.\<close>

definition show_examples :: "effects \<Rightarrow> effects" where
  "show_examples eff = emit_all [Markdown examples_title, Markdown examples_body] eff"

text \<open>Lines 242--272: the footer, with \<open>st.columns(3)\<close> for the three tips.\<close>

definition page_footer :: "effects \<Rightarrow> effects" where
  "page_footer eff =
     emit_all [Markdown footer_rule, Markdown tips_title, Columns [1, 1, 1],
               Markdown tips_words, Markdown tips_printing, Markdown tips_usage,
               Markdown footer_rule, Markdown privacy_note] eff"

text \<open>
  How often a pattern occurs in a text, counting overlapping occurrences: used to
  count the opening and closing tags of the HTML fragments the page emits.
\<close>

fun occurrences :: "pystr \<Rightarrow> pystr \<Rightarrow> nat" where
  "occurrences pat [] = 0"
| "occurrences pat (c # cs) = (if prefix pat (c # cs) then 1 else 0) + occurrences pat cs"

subsection \<open>The elements each operation appends\<close>

lemma emit_all_fields [simp]:
  "ui_out (emit_all us eff) = ui_out eff @ us" "calls (emit_all us eff) = calls eff"
  by (simp_all add: emit_all_def)

lemmas chrome_defs = module_prelude_def main_header_def col1_inputs_def col1_help_def
  show_examples_def page_footer_def

definition page_top :: "ui list" where
  "page_top = [page_config, Html custom_css, Html header_html, Html subtitle_html, Columns [1, 1],
               Markdown col1_title, TextInput key_input_label True None,
               TextInput word_input_label False (Some 50)]"

definition help_elems :: "ui list" where
  "help_elems = [Expander api_help_label api_help_body, Expander settings_label settings_body]"

definition footer_elems :: "ui list" where
  "footer_elems = [Markdown footer_rule, Markdown tips_title, Columns [1, 1, 1],
                   Markdown tips_words, Markdown tips_printing, Markdown tips_usage,
                   Markdown footer_rule, Markdown privacy_note]"

lemma chrome_ui [simp]:
  "ui_out (col1_inputs (main_header (module_prelude eff))) = ui_out eff @ page_top"
  "ui_out (col1_help eff) = ui_out eff @ help_elems"
  "ui_out (show_examples eff) = ui_out eff @ [Markdown examples_title, Markdown examples_body]"
  "ui_out (page_footer eff) = ui_out eff @ footer_elems"
  by (simp_all add: chrome_defs page_top_def help_elems_def footer_elems_def)

lemma chrome_calls [simp]:
  "calls (module_prelude eff) = calls eff" "calls (main_header eff) = calls eff"
  "calls (col1_inputs eff) = calls eff" "calls (col1_help eff) = calls eff"
  "calls (show_examples eff) = calls eff" "calls (page_footer eff) = calls eff"
  by (simp_all add: chrome_defs)

end
