(* ===== verification/Controller.thy ===== *)
theory Controller
  imports Client Download Page
begin

text \<open>
  ViewController: \<open>main\<close> (src/MandalaArt.py, lines 124--272) and the module-level
  code before it.  A Streamlit script runs top to bottom on every user interaction;
  the only state that survives a run is \<open>st.session_state\<close>, here the record
  \<open>session\<close> whose three fields are the attributes \<open>current_image\<close>,
  \<open>current_prompt\<close> and \<open>current_word\<close> (an absent attribute is \<open>None\<close>).  One run
  is \<open>script_run\<close>: the chrome of theory \<open>Page\<close> before \<open>main\<close> and its header,
  the left column (\<open>main_col1\<close>: the title and the two text inputs, the button, the
  generation and the session update, the hint and the help, lines 132--188) and,
  unless the run stopped at \<open>st.rerun()\<close>, the right column and the footer
  (\<open>main_rest\<close>, lines 190--272, whose if/else of lines 194--239 is
  \<open>render_col2\<close>).  \<open>st.rerun()\<close> ends the run at once and starts a new one with the
  same widget values and the button released: \<open>interaction\<close> is a run and the run
  it starts, \<open>rerun_loop\<close> is Streamlit's loop that re-runs for as long as the
  script asks.

  Streamlit's own behaviour is modelled from its documentation: \<open>st.button\<close>
  returns \<open>True\<close> only in the run triggered by a click on an enabled button;
  \<open>text_input(max_chars=50)\<close> never returns more than 50 characters (a premise
  of the step relation of theory \<open>Session\<close>); reading a missing attribute of
  \<open>st.session_state\<close> raises \<open>AttributeError\<close>, which ends the run, as does an
  exception of \<open>st.image\<close> (line 199) or of \<open>image.save\<close> inside
  \<open>get_image_download_link\<close> (line 209): no \<open>try\<close> surrounds the right column,
  so Streamlit shows the traceback in place of the rest of the page.  A PIL image
  is always truthy, so \<open>if image:\<close> tests \<open>image is not None\<close>.
\<close>

subsection \<open>State and inputs\<close>

record session =
  current_image :: "image option"
  current_prompt :: "pystr option"
  current_word :: "pystr option"

definition initial_session :: session where
  "initial_session = \<lparr>current_image = None, current_prompt = None, current_word = None\<rparr>"

record inputs =
  in_api_key :: pystr
  in_word :: pystr
  in_clicked :: bool
  in_now :: timestamp

definition no_effects :: effects where
  "no_effects = \<lparr>ui_out = [], calls = []\<rparr>"

subsection \<open>The left column\<close>

text \<open>Line 151: \<open>can_generate = api_key.strip() and inspiration_word.strip()\<close>.\<close>

definition can_generate :: "pystr \<Rightarrow> pystr \<Rightarrow> pystr" where
  "can_generate api_key inspiration_word = py_and (py_strip api_key) (py_strip inspiration_word)"

definition st_button :: "bool \<Rightarrow> bool \<Rightarrow> bool" where
  "st_button clicked disabled \<longleftrightarrow> clicked \<and> \<not> disabled"

text \<open>
  Lines 153--163.  The result's third component is \<open>True\<close> when the run stopped at
  \<open>st.rerun()\<close>.  The success message interpolates the unstripped word.
\<close>

definition button_block :: "world \<Rightarrow> inputs \<Rightarrow> session \<Rightarrow> effects \<Rightarrow> session \<times> effects \<times> bool" where
  "button_block w inp s eff =
     (let api_key = in_api_key inp;
          inspiration_word = in_word inp;
          can_gen = can_generate api_key inspiration_word;
          eff1 = emit (Button (\<not> py_truthy can_gen)) eff
      in if st_button (in_clicked inp) (\<not> py_truthy can_gen) then
           (if py_truthy can_gen then
              (case generate_mandala_image w api_key (py_strip inspiration_word) eff1 of
                 (Some (img, prompt), eff2) \<Rightarrow>
                   (s\<lparr>current_image := Some img, current_prompt := Some prompt,
                      current_word := Some (py_strip inspiration_word)\<rparr>,
                    emit (Success inspiration_word) eff2, True)
               | (None, eff2) \<Rightarrow> (s, eff2, False))
            else (s, eff1, False))
         else (s, eff1, False))"

text \<open>Lines 166--167: the hint shown while a field is blank.\<close>

definition missing_info :: "pystr \<Rightarrow> pystr \<Rightarrow> effects \<Rightarrow> effects" where
  "missing_info api_key inspiration_word eff =
     (if \<not> py_truthy (py_strip api_key) \<or> \<not> py_truthy (py_strip inspiration_word)
      then emit InfoMissingFields eff else eff)"

text \<open>Lines 132--188: \<open>with col1:\<close>.\<close>

definition main_col1 :: "world \<Rightarrow> inputs \<Rightarrow> session \<Rightarrow> effects \<Rightarrow> session \<times> effects \<times> bool" where
  "main_col1 w inp s eff =
     (case button_block w inp s (col1_inputs eff) of
        (s', eff', True) \<Rightarrow> (s', eff', True)
      | (s', eff', False) \<Rightarrow> (s', col1_help (missing_info (in_api_key inp) (in_word inp) eff'), False))"

subsection \<open>The right column and the footer\<close>

definition attr_error :: "pystr \<Rightarrow> py_exc" where
  "attr_error name =
     \<lparr>exc_class = AttributeError,
      exc_str = ''st.session_state has no attribute '' @ [dq] @ name @ [dq] @
                ''. Did you forget to initialize it? More info: '' @
                ''https://docs.streamlit.io/develop/concepts/architecture/session-state#initialization''\<rparr>"

text \<open>
  Lines 194--239: the stored image with its download section, or the placeholder.
  An exception (\<open>Inl\<close>) carries the elements emitted before it: reading
  \<open>current_word\<close> (line 196) and \<open>st.image\<close> (line 199) fail before any
  element of the branch, \<open>image.save\<close> (line 209) after the image, the opening
  \<open>div\<close> and the title.
\<close>

definition render_col2 ::
  "world \<Rightarrow> timestamp \<Rightarrow> session \<Rightarrow> effects \<Rightarrow> (py_exc \<times> effects) + effects" where
  "render_col2 w now s eff =
     (case current_image s of
        None \<Rightarrow> Inr (show_examples (emit InfoPlaceholder eff))
      | Some img \<Rightarrow>
          (case current_word s of
             None \<Rightarrow> Inl (attr_error ''current_word'', eff)
           | Some word \<Rightarrow>
               (case image_show w img of
                  Some e \<Rightarrow> Inl (e, eff)
                | None \<Rightarrow>
                    (let eff1 = emit_all [ShowImage img word, Html download_open, Markdown download_title] eff;
                         filename = mandala_filename word now
                     in case get_image_download_link w img filename of
                          Inl e \<Rightarrow> Inl (e, eff1)
                        | Inr download_link \<Rightarrow>
                            (let eff2 = emit (DownloadLink download_link) eff1;
                                 eff3 = emit_all [ImageInfo filename (img_width img) (img_height img) word,
                                                  Html download_close] eff2
                             in Inr (case current_prompt s of
                                       None \<Rightarrow> eff3
                                     | Some prompt \<Rightarrow> emit (ShowPrompt prompt) eff3))))))"

datatype run_result =
    Rerun session effects
  | Completed session effects
  | Crashed py_exc session effects

fun run_session :: "run_result \<Rightarrow> session" where
  "run_session (Rerun s _) = s"
| "run_session (Completed s _) = s"
| "run_session (Crashed _ s _) = s"

fun run_effects :: "run_result \<Rightarrow> effects" where
  "run_effects (Rerun _ eff) = eff"
| "run_effects (Completed _ eff) = eff"
| "run_effects (Crashed _ _ eff) = eff"

text \<open>
  Lines 190--272: \<open>with col2:\<close> and the footer.  An exception in the right column
  ends the run before the footer.
\<close>

definition main_rest :: "world \<Rightarrow> timestamp \<Rightarrow> session \<Rightarrow> effects \<Rightarrow> run_result" where
  "main_rest w now s eff =
     (let eff1 = emit (Markdown col2_title) eff
      in case render_col2 w now s eff1 of
           Inl (e, eff2) \<Rightarrow> Crashed e s eff2
         | Inr eff2 \<Rightarrow> Completed s (page_footer eff2))"

subsection \<open>Runs of the script\<close>

definition script_run :: "world \<Rightarrow> inputs \<Rightarrow> session \<Rightarrow> effects \<Rightarrow> run_result" where
  "script_run w inp s eff =
     (case main_col1 w inp s (main_header (module_prelude eff)) of
        (s', eff', True) \<Rightarrow> Rerun s' eff'
      | (s', eff', False) \<Rightarrow> main_rest w (in_now inp) s' eff')"

text \<open>
  One user interaction: a run, and after \<open>st.rerun()\<close> a second run with the same
  widget values and the button released.  The page shows only the second run's
  elements; the external calls of both runs have happened.
\<close>

definition interaction :: "world \<Rightarrow> inputs \<Rightarrow> session \<Rightarrow> run_result" where
  "interaction w inp s =
     (case script_run w inp s no_effects of
        Rerun s' eff \<Rightarrow>
          script_run w (inp\<lparr>in_clicked := False\<rparr>) s' \<lparr>ui_out = [], calls = calls eff\<rparr>
      | r \<Rightarrow> r)"

text \<open>
  Streamlit's loop: run the script; while a run ends in \<open>st.rerun()\<close>, run it
  again with the button released, keeping the external calls made so far.  Nothing
  in Streamlit bounds the number of re-runs, so the loop is a partial function:
  \<open>None\<close> is a script that re-runs for ever.
\<close>

partial_function (option) rerun_loop :: "world \<Rightarrow> inputs \<Rightarrow> session \<Rightarrow> call list \<Rightarrow> run_result option" where
  "rerun_loop w inp s cs =
     (case script_run w inp s \<lparr>ui_out = [], calls = cs\<rparr> of
        Rerun s' eff \<Rightarrow> rerun_loop w (inp\<lparr>in_clicked := False\<rparr>) s' (calls eff)
      | r \<Rightarrow> Some r)"

subsection \<open>The button block on each branch\<close>

abbreviation enabled :: "inputs \<Rightarrow> bool" where
  "enabled inp \<equiv> py_strip (in_api_key inp) \<noteq> [] \<and> py_strip (in_word inp) \<noteq> []"

abbreviation word_prompt :: "inputs \<Rightarrow> pystr" where
  "word_prompt inp \<equiv> generate_mandala_prompt (py_strip (in_word inp))"

abbreviation run_head :: "effects \<Rightarrow> effects" where
  "run_head eff \<equiv> col1_inputs (main_header (module_prelude eff))"

definition stored :: "session \<Rightarrow> image \<Rightarrow> pystr \<Rightarrow> session" where
  "stored s img word =
     s\<lparr>current_image := Some img, current_prompt := Some (generate_mandala_prompt word),
       current_word := Some word\<rparr>"

text \<open>The elements only the left column emits: the button and the messages.\<close>

fun col1_message :: "ui \<Rightarrow> bool" where
  "col1_message (Button _) = True"
| "col1_message (Success _) = True"
| "col1_message (ErrApiKey _) = True"
| "col1_message (ErrGenerating _) = True"
| "col1_message InfoMissingFields = True"
| "col1_message _ = False"

text \<open>
  The two shapes of the right column: the placeholder with the examples, or the
  image with its download section (followed by the prompt panel when a prompt is
  stored).
\<close>

definition placeholder_column :: "ui list" where
  "placeholder_column = [InfoPlaceholder, Markdown examples_title, Markdown examples_body]"

definition image_column :: "image \<Rightarrow> pystr \<Rightarrow> pystr \<Rightarrow> pystr \<Rightarrow> ui list" where
  "image_column img word link fn =
     [ShowImage img word, Html download_open, Markdown download_title, DownloadLink link,
      ImageInfo fn (img_width img) (img_height img) word, Html download_close]"

text \<open>
  The first exception the right column raises for a session, in the order of the
  code: the missing word, then \<open>st.image\<close>, then \<open>image.save\<close>
  (\<open>image_failure\<close>); \<open>None\<close> when it renders.
\<close>

definition image_failure :: "world \<Rightarrow> image \<Rightarrow> py_exc option" where
  "image_failure w img =
     (case image_show w img of
        Some e \<Rightarrow> Some e
      | None \<Rightarrow> (case image_save_png w img of Inl e \<Rightarrow> Some e | Inr _ \<Rightarrow> None))"

definition col2_failure :: "world \<Rightarrow> session \<Rightarrow> py_exc option" where
  "col2_failure w s =
     (case current_image s of
        None \<Rightarrow> None
      | Some img \<Rightarrow>
          (case current_word s of
             None \<Rightarrow> Some (attr_error ''current_word'')
           | Some _ \<Rightarrow> image_failure w img))"

lemma can_generate_truthy [simp]:
  "py_truthy (can_generate k w) \<longleftrightarrow> py_strip k \<noteq> [] \<and> py_strip w \<noteq> []"
  unfolding can_generate_def py_truthy_and by (simp add: py_truthy_def)

lemma button_block_idle:
  assumes "\<not> (in_clicked inp \<and> enabled inp)"
  shows "button_block w inp s eff =
           (s, emit (Button (py_strip (in_api_key inp) = [] \<or> py_strip (in_word inp) = [])) eff, False)"
  using assms by (auto simp: button_block_def st_button_def Let_def)

lemma button_block_success:
  assumes "in_clicked inp" "enabled inp"
    and "image_client_spec w (in_api_key inp) (word_prompt inp) = Inr img"
  shows "\<exists>eff'. button_block w inp s eff = (stored s img (py_strip (in_word inp)), eff', True)"
proof -
  let ?eff1 = "emit (Button False) eff"
  have "fst (generate_mandala_image w (in_api_key inp) (py_strip (in_word inp)) ?eff1) =
        Some (img, word_prompt inp)"
    using assms(3) by (simp add: generate_mandala_image_value)
  then obtain eff2 where
    "generate_mandala_image w (in_api_key inp) (py_strip (in_word inp)) ?eff1 = (Some (img, word_prompt inp), eff2)"
    by (metis prod.collapse)
  with assms(1,2) show ?thesis
    by (simp add: button_block_def st_button_def Let_def stored_def)
qed

lemma button_block_failure:
  assumes "in_clicked inp" "enabled inp"
    and "image_client_spec w (in_api_key inp) (word_prompt inp) = Inl err"
  shows "button_block w inp s eff =
           (s, snd (generate_mandala_image w (in_api_key inp) (py_strip (in_word inp)) (emit (Button False) eff)),
            False)"
proof -
  let ?eff1 = "emit (Button False) eff"
  have "fst (generate_mandala_image w (in_api_key inp) (py_strip (in_word inp)) ?eff1) = None"
    using assms(3) by (simp add: generate_mandala_image_value)
  then obtain eff2 where
    "generate_mandala_image w (in_api_key inp) (py_strip (in_word inp)) ?eff1 = (None, eff2)"
    by (metis prod.collapse)
  with assms(1,2) show ?thesis
    by (simp add: button_block_def st_button_def Let_def)
qed

subsection \<open>The right column and the footer\<close>

lemma main_rest_session [simp]: "run_session (main_rest w t s eff) = s"
  by (simp add: main_rest_def Let_def split: sum.splits)

lemma main_rest_calls [simp]: "calls (run_effects (main_rest w t s eff)) = calls eff"
  by (auto simp: main_rest_def render_col2_def Let_def split: sum.splits option.splits)

lemma main_rest_not_rerun [simp]: "main_rest w t s eff \<noteq> Rerun s' eff'"
  by (simp add: main_rest_def Let_def split: sum.splits)

lemma main_rest_ui_prefix: "prefix (ui_out eff) (ui_out (run_effects (main_rest w t s eff)))"
  by (auto simp: main_rest_def render_col2_def Let_def split: sum.splits option.splits)

lemma main_rest_col1_message:
  "u \<in> set (ui_out (run_effects (main_rest w t s eff))) \<Longrightarrow> col1_message u \<Longrightarrow> u \<in> set (ui_out eff)"
  by (auto simp: main_rest_def render_col2_def Let_def page_top_def help_elems_def footer_elems_def
      split: sum.splits option.splits)

lemmas col2_defs = main_rest_def render_col2_def get_image_download_link_def col2_failure_def
  image_failure_def Let_def

lemma main_rest_completes:
  "col2_failure w s = None \<Longrightarrow> \<exists>eff'. main_rest w t s eff = Completed s eff'"
  by (auto simp: col2_defs split: option.splits sum.splits)

lemma main_rest_completed_failure:
  "main_rest w t s eff = Completed s' eff' \<Longrightarrow> col2_failure w s = None"
  by (auto simp: col2_defs split: option.splits sum.splits)

lemma main_rest_crashes:
  "col2_failure w s = Some e \<Longrightarrow> \<exists>eff'. main_rest w t s eff = Crashed e s eff'"
  by (auto simp: col2_defs split: option.splits sum.splits)

lemma main_rest_crashed_failure:
  "main_rest w t s eff = Crashed e s' eff' \<Longrightarrow> col2_failure w s = Some e"
  by (auto simp: col2_defs split: option.splits sum.splits prod.splits)

lemma main_rest_crash_layout:
  "main_rest w t s eff = Crashed e s' eff' \<Longrightarrow>
   \<exists>img word. current_image s = Some img \<and>
     (ui_out eff' = ui_out eff @ [Markdown col2_title] \<and>
        (current_word s = None \<or> image_show w img = Some e) \<or>
      ui_out eff' = ui_out eff @ [Markdown col2_title, ShowImage img word, Html download_open,
                                   Markdown download_title] \<and>
        current_word s = Some word \<and> image_show w img = None \<and> image_save_png w img = Inl e)"
  by (auto simp: col2_defs split: option.splits sum.splits prod.splits)

lemma main_rest_shows:
  "current_image s = Some img \<Longrightarrow> current_word s = Some wd \<Longrightarrow> image_show w img = None \<Longrightarrow>
   ShowImage img wd \<in> set (ui_out (run_effects (main_rest w t s eff)))"
  by (auto simp: col2_defs split: sum.splits option.splits)

lemma main_rest_layout:
  "main_rest w t s eff = Completed s' eff' \<Longrightarrow>
   \<exists>right. ui_out eff' = ui_out eff @ Markdown col2_title # right @ footer_elems \<and>
     (right = placeholder_column \<or>
      (\<exists>img word link fn. right = image_column img word link fn \<or>
                          (\<exists>p. right = image_column img word link fn @ [ShowPrompt p])))"
  by (auto simp: main_rest_def render_col2_def Let_def placeholder_column_def image_column_def
      split: sum.splits option.splits)

subsection \<open>Runs on each branch\<close>

lemma script_run_idle:
  assumes "\<not> (in_clicked inp \<and> enabled inp)"
  shows "script_run w inp s eff =
           main_rest w (in_now inp) s (col1_help (missing_info (in_api_key inp) (in_word inp)
             (emit (Button (py_strip (in_api_key inp) = [] \<or> py_strip (in_word inp) = [])) (run_head eff))))"
  using assms by (simp add: script_run_def main_col1_def button_block_idle)

lemma script_run_success:
  assumes "in_clicked inp" "enabled inp"
    and "image_client_spec w (in_api_key inp) (word_prompt inp) = Inr img"
  shows "\<exists>eff'. script_run w inp s eff = Rerun (stored s img (py_strip (in_word inp))) eff'"
  using button_block_success [OF assms, of s "run_head eff"]
  by (auto simp: script_run_def main_col1_def)

lemma script_run_failure:
  assumes "in_clicked inp" "enabled inp"
    and "image_client_spec w (in_api_key inp) (word_prompt inp) = Inl err"
  shows "script_run w inp s eff =
           main_rest w (in_now inp) s (col1_help (snd (generate_mandala_image w (in_api_key inp)
             (py_strip (in_word inp)) (emit (Button False) (run_head eff)))))"
  using assms button_block_failure [OF assms, of s "run_head eff"]
  by (simp add: script_run_def main_col1_def missing_info_def py_truthy_def)

subsection \<open>Interactions on each branch\<close>

lemma stored_fields [simp]:
  "current_image (stored s img word) = Some img" "current_word (stored s img word) = Some word"
  "current_prompt (stored s img word) = Some (generate_mandala_prompt word)"
  by (simp_all add: stored_def)

lemma interaction_success_run:
  assumes "in_clicked inp" "enabled inp"
    and "image_client_spec w (in_api_key inp) (word_prompt inp) = Inr img"
  shows "\<exists>e0. interaction w inp s = main_rest w (in_now inp) (stored s img (py_strip (in_word inp))) e0"
proof -
  let ?s' = "stored s img (py_strip (in_word inp))"
  let ?inp' = "inp\<lparr>in_clicked := False\<rparr>"
  obtain eff1 where r1: "script_run w inp s no_effects = Rerun ?s' eff1"
    using script_run_success [OF assms] by blast
  obtain e0 where "script_run w ?inp' ?s' \<lparr>ui_out = [], calls = calls eff1\<rparr> = main_rest w (in_now inp) ?s' e0"
    using script_run_idle [of ?inp' w ?s' "\<lparr>ui_out = [], calls = calls eff1\<rparr>"] by simp
  with r1 have "interaction w inp s = main_rest w (in_now inp) ?s' e0"
    by (cases "main_rest w (in_now inp) ?s' e0") (simp_all add: interaction_def)
  then show ?thesis
    by blast
qed

lemma interaction_main_rest:
  "script_run w inp s no_effects = main_rest w t s' eff \<Longrightarrow> interaction w inp s = main_rest w t s' eff"
  by (cases "main_rest w t s' eff") (simp_all add: interaction_def)

lemma interaction_idle:
  assumes "\<not> (in_clicked inp \<and> enabled inp)"
  shows "interaction w inp s = script_run w inp s no_effects \<and>
         run_session (interaction w inp s) = s \<and> calls (run_effects (interaction w inp s)) = []"
  using assms interaction_main_rest [OF script_run_idle [OF assms]]
  by (simp add: script_run_idle no_effects_def missing_info_def)

lemma interaction_failure_run:
  assumes "in_clicked inp" "enabled inp"
    and "image_client_spec w (in_api_key inp) (word_prompt inp) = Inl err"
  shows "interaction w inp s = script_run w inp s no_effects \<and> run_session (interaction w inp s) = s \<and>
         set (ui_out (snd (generate_mandala_image w (in_api_key inp) (py_strip (in_word inp))
                             (emit (Button False) (run_head no_effects)))))
           \<subseteq> set (ui_out (run_effects (interaction w inp s)))"
proof -
  let ?e = "col1_help (snd (generate_mandala_image w (in_api_key inp) (py_strip (in_word inp))
              (emit (Button False) (run_head no_effects))))"
  have r: "script_run w inp s no_effects = main_rest w (in_now inp) s ?e"
    by (rule script_run_failure [OF assms])
  then have i: "interaction w inp s = main_rest w (in_now inp) s ?e"
    by (rule interaction_main_rest)
  have "set (ui_out ?e) \<subseteq> set (ui_out (run_effects (main_rest w (in_now inp) s ?e)))"
    using main_rest_ui_prefix [of ?e w "in_now inp" s] by (rule set_mono_prefix)
  then show ?thesis
    unfolding i r by auto
qed

lemma interaction_session:
  "run_session (interaction w inp s) =
     (if in_clicked inp \<and> enabled inp then
        (case image_client_spec w (in_api_key inp) (word_prompt inp) of
           Inl _ \<Rightarrow> s
         | Inr img \<Rightarrow> stored s img (py_strip (in_word inp)))
      else s)"
proof (cases "in_clicked inp \<and> enabled inp")
  case True
  then show ?thesis
  proof (cases "image_client_spec w (in_api_key inp) (word_prompt inp)")
    case (Inl err)
    with True have "run_session (interaction w inp s) = s"
      using interaction_failure_run [of inp w err s] by blast
    with True Inl show ?thesis
      by simp
  next
    case (Inr img)
    with True show ?thesis
      using interaction_success_run [of inp w img s] by auto
  qed
next
  case False
  then have "run_session (interaction w inp s) = s"
    using interaction_idle [of inp w s] by blast
  then show ?thesis
    unfolding if_not_P [OF False] .
qed

lemma interaction_not_success:
  assumes "\<not> (in_clicked inp \<and> enabled inp) \<or> isl (image_client_spec w (in_api_key inp) (word_prompt inp))"
  shows "\<exists>eff'. interaction w inp s = main_rest w (in_now inp) s eff'"
proof (cases "in_clicked inp \<and> enabled inp")
  case False
  then show ?thesis
    using interaction_idle [of inp w s] by (auto simp: script_run_idle)
next
  case True
  with assms obtain err where e: "image_client_spec w (in_api_key inp) (word_prompt inp) = Inl err"
    by (auto simp: isl_def)
  with True show ?thesis
    using interaction_failure_run [of inp w err s] script_run_failure [of inp w err s no_effects]
    by auto
qed

lemma interaction_cases:
  "(\<exists>img. in_clicked inp \<and> enabled inp \<and> image_client_spec w (in_api_key inp) (word_prompt inp) = Inr img \<and>
     (\<exists>e0. interaction w inp s = main_rest w (in_now inp) (stored s img (py_strip (in_word inp))) e0)) \<or>
   (\<exists>eff'. interaction w inp s = main_rest w (in_now inp) s eff')"
proof (cases "(in_clicked inp \<and> enabled inp) \<and> \<not> isl (image_client_spec w (in_api_key inp) (word_prompt inp))")
  case True
  then obtain img where "image_client_spec w (in_api_key inp) (word_prompt inp) = Inr img"
    by (cases "image_client_spec w (in_api_key inp) (word_prompt inp)") auto
  with True show ?thesis
    using interaction_success_run [of inp w img s] by blast
next
  case False
  then show ?thesis
    using interaction_not_success [of inp w s] by blast
qed

lemma interaction_not_rerun: "interaction w inp s \<noteq> Rerun s' eff"
  using interaction_cases [of inp w s] by auto

subsection \<open>What the page shows\<close>

lemma ui_prefix_generate: "prefix (ui_out eff) (ui_out (snd (generate_mandala_image w k wd eff)))"
  using generate_mandala_image_ui [of w k wd eff] by (cases "fst (generate_mandala_image w k wd eff)") auto

lemma generate_no_success:
  "Success x \<in> set (ui_out (snd (generate_mandala_image w k wd eff))) \<Longrightarrow> Success x \<in> set (ui_out eff)"
  using generate_mandala_image_ui [of w k wd eff] by (cases "fst (generate_mandala_image w k wd eff)") auto

lemma ui_prefix_script_run:
  "prefix (ui_out eff @ page_top @ [Button (py_strip (in_api_key inp) = [] \<or> py_strip (in_word inp) = [])])
          (ui_out (run_effects (script_run w inp s eff)))"
proof (cases "in_clicked inp \<and> enabled inp")
  case False
  let ?e = "col1_help (missing_info (in_api_key inp) (in_word inp)
             (emit (Button (py_strip (in_api_key inp) = [] \<or> py_strip (in_word inp) = [])) (run_head eff)))"
  have "prefix (ui_out eff @ page_top @ [Button (py_strip (in_api_key inp) = [] \<or> py_strip (in_word inp) = [])])
          (ui_out ?e)"
    by (simp add: missing_info_def)
  with False show ?thesis
    using main_rest_ui_prefix [of ?e w "in_now inp" s]
    by (auto simp: script_run_idle intro: prefix_order.trans)
next
  case True
  show ?thesis
  proof (cases "image_client_spec w (in_api_key inp) (word_prompt inp)")
    case (Inl err)
    let ?g = "snd (generate_mandala_image w (in_api_key inp) (py_strip (in_word inp)) (emit (Button False) (run_head eff)))"
    have "prefix (ui_out eff @ page_top @ [Button False]) (ui_out (col1_help ?g))"
      using ui_prefix_generate [of "emit (Button False) (run_head eff)" w "in_api_key inp" "py_strip (in_word inp)"]
      by (auto intro: prefix_order.trans)
    with True Inl show ?thesis
      using main_rest_ui_prefix [of "col1_help ?g" w "in_now inp" s]
      by (auto simp: script_run_failure [OF _ _ Inl] intro: prefix_order.trans)
  next
    case (Inr img)
    let ?g = "generate_mandala_image w (in_api_key inp) (py_strip (in_word inp)) (emit (Button False) (run_head eff))"
    have "fst ?g = Some (img, word_prompt inp)"
      using Inr by (simp add: generate_mandala_image_value)
    then obtain eff2 where g: "?g = (Some (img, word_prompt inp), eff2)"
      by (metis prod.collapse)
    have "prefix (ui_out eff @ page_top @ [Button False]) (ui_out (snd ?g))"
      using ui_prefix_generate [of "emit (Button False) (run_head eff)" w "in_api_key inp" "py_strip (in_word inp)"]
      by simp
    with True g show ?thesis
      by (auto simp: script_run_def main_col1_def button_block_def st_button_def Let_def
          intro: prefix_order.trans)
  qed
qed

lemma script_run_col1_message:
  assumes "u \<in> set (ui_out (run_effects (script_run w inp s eff)))" "col1_message u"
    and "\<not> in_clicked inp \<or> \<not> enabled inp \<or> isl (image_client_spec w (in_api_key inp) (word_prompt inp))"
  shows "u \<in> set (ui_out eff) \<or> u = Button (py_strip (in_api_key inp) = [] \<or> py_strip (in_word inp) = []) \<or>
         u = InfoMissingFields \<or>
         u \<in> set (ui_out (snd (generate_mandala_image w (in_api_key inp) (py_strip (in_word inp))
                               (emit (Button False) (run_head eff)))))"
proof (cases "in_clicked inp \<and> enabled inp")
  case False
  with assms show ?thesis
    by (auto simp: script_run_idle missing_info_def page_top_def page_config_def help_elems_def
        dest!: main_rest_col1_message split: if_splits)
next
  case True
  with assms(3) obtain err where "image_client_spec w (in_api_key inp) (word_prompt inp) = Inl err"
    by (auto simp: isl_def)
  with True assms(1,2) show ?thesis
    by (auto simp: script_run_failure help_elems_def dest!: main_rest_col1_message)
qed

subsection \<open>The rerun loop\<close>

lemma rerun_loop_unfold:
  "rerun_loop w inp s cs =
     (case script_run w inp s \<lparr>ui_out = [], calls = cs\<rparr> of
        Rerun s' eff \<Rightarrow> rerun_loop w (inp\<lparr>in_clicked := False\<rparr>) s' (calls eff)
      | r \<Rightarrow> Some r)"
  by (rule rerun_loop.simps)

lemma script_run_released_not_rerun: "\<not> in_clicked inp \<Longrightarrow> script_run w inp s eff \<noteq> Rerun s' eff'"
  by (simp add: script_run_idle)

lemma rerun_loop_stops: "(\<And>s' e. r \<noteq> Rerun s' e) \<Longrightarrow> script_run w inp s \<lparr>ui_out = [], calls = cs\<rparr> = r \<Longrightarrow>
   rerun_loop w inp s cs = Some r"
  by (subst rerun_loop_unfold) (cases r, auto)

subsection \<open>Properties of the controller\<close>

text \<open>
  C7.  A click on the enabled button whose generation succeeds stores exactly one
  result, replacing whatever was there: the image, the prompt built from the stripped
  word, and the stripped word.  The page re-runs and shows the new image, unless
  \<open>st.image\<close> raises on it.
\<close>

theorem interaction_success:
  assumes "in_clicked inp" "py_strip (in_api_key inp) \<noteq> []" "py_strip (in_word inp) \<noteq> []"
    and "image_client_spec w (in_api_key inp) (generate_mandala_prompt (py_strip (in_word inp))) = Inr img"
  shows "run_session (interaction w inp s) =
           \<lparr>current_image = Some img,
            current_prompt = Some (generate_mandala_prompt (py_strip (in_word inp))),
            current_word = Some (py_strip (in_word inp))\<rparr> \<and>
         (image_show w img = None \<longrightarrow>
            ShowImage img (py_strip (in_word inp)) \<in> set (ui_out (run_effects (interaction w inp s))))"
proof -
  let ?s' = "stored s img (py_strip (in_word inp))"
  obtain e0 where i: "interaction w inp s = main_rest w (in_now inp) ?s' e0"
    using interaction_success_run [of inp w img s] assms by blast
  have "image_show w img = None \<longrightarrow>
        ShowImage img (py_strip (in_word inp)) \<in> set (ui_out (run_effects (main_rest w (in_now inp) ?s' e0)))"
    using main_rest_shows [of ?s' img "py_strip (in_word inp)" w "in_now inp" e0] by simp
  then show ?thesis
    unfolding i by (cases s) (simp add: stored_def)
qed

text \<open>
  C8.  When the generation fails, the session state is the one before the click, and
  the error's message is shown.  Without a click on an enabled button nothing is
  stored either.
\<close>

theorem interaction_failure_keeps_session:
  assumes "image_client_spec w (in_api_key inp) (generate_mandala_prompt (py_strip (in_word inp))) = Inl err"
  shows "run_session (interaction w inp s) = s \<and>
         (in_clicked inp \<and> py_strip (in_api_key inp) \<noteq> [] \<and> py_strip (in_word inp) \<noteq> [] \<longrightarrow>
            ErrApiKey (err_msg err) \<in> set (ui_out (run_effects (interaction w inp s))) \<or>
            ErrGenerating (err_msg err) \<in> set (ui_out (run_effects (interaction w inp s))))"
proof (intro conjI impI)
  show "run_session (interaction w inp s) = s"
    using assms by (simp add: interaction_session)
  assume c: "in_clicked inp \<and> py_strip (in_api_key inp) \<noteq> [] \<and> py_strip (in_word inp) \<noteq> []"
  let ?g = "snd (generate_mandala_image w (in_api_key inp) (py_strip (in_word inp)) (emit (Button False) (run_head no_effects)))"
  have "ErrApiKey (err_msg err) \<in> set (ui_out ?g) \<or> ErrGenerating (err_msg err) \<in> set (ui_out ?g)"
    using generate_mandala_image_reports [of w "in_api_key inp" "py_strip (in_word inp)"
        "emit (Button False) (run_head no_effects)"] assms by simp
  with interaction_failure_run [of inp w err s] c assms
  show "ErrApiKey (err_msg err) \<in> set (ui_out (run_effects (interaction w inp s))) \<or>
        ErrGenerating (err_msg err) \<in> set (ui_out (run_effects (interaction w inp s)))"
    by blast
qed

text \<open>
  C9.  The page the user sees starts with the page configuration, the style sheet,
  the header, the left column's title and the two text inputs, followed by the
  Generate button, disabled exactly when the API key or the inspiration word is
  empty after stripping whitespace.
\<close>

theorem submit_button_state:
  "\<exists>rest. ui_out (run_effects (interaction w inp s)) =
     page_top @ Button (py_strip (in_api_key inp) = [] \<or> py_strip (in_word inp) = []) # rest"
proof (cases "\<exists>s' eff. script_run w inp s no_effects = Rerun s' eff")
  case True
  then obtain s' eff where r: "script_run w inp s no_effects = Rerun s' eff"
    by blast
  have "prefix (page_top @ [Button (py_strip (in_api_key inp) = [] \<or> py_strip (in_word inp) = [])])
          (ui_out (run_effects (script_run w (inp\<lparr>in_clicked := False\<rparr>) s' \<lparr>ui_out = [], calls = calls eff\<rparr>)))"
    using ui_prefix_script_run [of "\<lparr>ui_out = [], calls = calls eff\<rparr>" "inp\<lparr>in_clicked := False\<rparr>"]
    by simp
  with r show ?thesis
    by (auto simp: interaction_def prefix_def)
next
  case False
  then have "interaction w inp s = script_run w inp s no_effects"
    by (auto simp: interaction_def split: run_result.splits)
  moreover have "prefix (page_top @ [Button (py_strip (in_api_key inp) = [] \<or> py_strip (in_word inp) = [])])
          (ui_out (run_effects (script_run w inp s no_effects)))"
    using ui_prefix_script_run [of no_effects inp] by (simp add: no_effects_def)
  ultimately show ?thesis
    by (auto simp: prefix_def)
qed

text \<open>
  C11.  Unless the user clicks the button with both fields filled in, an interaction
  makes no external call at all (no client, no generation, no download) and leaves
  the session state as it was.
\<close>

theorem no_calls_unless_submitted:
  assumes "\<not> in_clicked inp \<or> py_strip (in_api_key inp) = [] \<or> py_strip (in_word inp) = []"
  shows "calls (run_effects (interaction w inp s)) = [] \<and> run_session (interaction w inp s) = s"
  using assms interaction_idle [of inp w s] by auto

text \<open>
  C12.  After a failed generation the page still shows the image stored by an
  earlier success (when \<open>st.image\<close> can display it), next to the error message
  (the spec says no image is rendered on failure).
\<close>

theorem failure_shows_previous_image:
  assumes "current_image s = Some img_old" "current_word s = Some word_old"
    and "image_show w img_old = None"
    and "image_client_spec w (in_api_key inp) (generate_mandala_prompt (py_strip (in_word inp))) = Inl err"
  shows "ShowImage img_old word_old \<in> set (ui_out (run_effects (interaction w inp s)))"
proof -
  obtain eff' where "interaction w inp s = main_rest w (in_now inp) s eff'"
    using interaction_not_success [of inp w s] assms(4) by auto
  with main_rest_shows [OF assms(1,2,3), of "in_now inp" eff'] show ?thesis
    by simp
qed

text \<open>
  C13.  The download file name is computed from the clock at render time, not stored
  with the result: the same session state rendered at two times whose
  \<open>%Y%m%d_%H%M%S\<close> stamps differ offers two different file names (the spec asks
  for the generation time, reproducible from the session state alone).  This holds
  whenever the column renders, that is when \<open>st.image\<close> and \<open>image.save\<close>
  succeed on the image.
\<close>

theorem filename_depends_on_render_time:
  assumes "current_image s = Some img" "current_word s = Some word"
    and "image_show w img = None" "image_save_png w img = Inr bs"
    and "strftime_stamp t_gen \<noteq> strftime_stamp t_now"
  shows "render_col2 w t_gen s eff \<noteq> render_col2 w t_now s eff"
proof -
  have "mandala_filename word t_gen \<noteq> mandala_filename word t_now"
    using assms(5) by (simp add: mandala_filename_def)
  with assms(1-4) show ?thesis
    by (auto simp: render_col2_def get_image_download_link_def Let_def emit_def
        dest: arg_cong [where f = ui_out] split: option.splits)
qed

text \<open>
  C14.  The API key is not kept: the session state after an interaction depends on
  the key only through whether it is blank and what the services answer to it.
\<close>

theorem api_key_not_persisted:
  assumes "py_strip key_a = [] \<longleftrightarrow> py_strip key_b = []"
    and "image_client_spec w key_a (generate_mandala_prompt (py_strip (in_word inp))) =
         image_client_spec w key_b (generate_mandala_prompt (py_strip (in_word inp)))"
  shows "run_session (interaction w (inp\<lparr>in_api_key := key_a\<rparr>) s) =
         run_session (interaction w (inp\<lparr>in_api_key := key_b\<rparr>) s)"
  using assms by (auto simp: interaction_session split: sum.splits)

text \<open>
  C16.  The success message is never on the page: it is emitted right before
  \<open>st.rerun()\<close>, which discards the elements of the run that emitted it, and the run
  that follows has the button released.
\<close>

theorem success_message_never_shown:
  "Success x \<notin> set (ui_out (run_effects (interaction w inp s)))"
proof (cases "\<exists>s' eff. script_run w inp s no_effects = Rerun s' eff")
  case True
  then obtain s' eff where r: "script_run w inp s no_effects = Rerun s' eff"
    by blast
  let ?inp' = "inp\<lparr>in_clicked := False\<rparr>"
  let ?e = "\<lparr>ui_out = [], calls = calls eff\<rparr>"
  have "Success x \<notin> set (ui_out (run_effects (script_run w ?inp' s' ?e)))"
    using script_run_col1_message [of "Success x" w ?inp' s' ?e]
      generate_no_success [of x w "in_api_key inp" "py_strip (in_word inp)" "emit (Button False) (run_head ?e)"]
    by (auto simp: page_top_def page_config_def)
  with r show ?thesis
    by (simp add: interaction_def)
next
  case False
  then have i: "interaction w inp s = script_run w inp s no_effects"
    by (auto simp: interaction_def split: run_result.splits)
  have "\<not> in_clicked inp \<or> \<not> enabled inp \<or> isl (image_client_spec w (in_api_key inp) (word_prompt inp))"
    using False script_run_success [of inp w _ s no_effects] by (cases "image_client_spec w (in_api_key inp) (word_prompt inp)") auto
  then show ?thesis
    using script_run_col1_message [of "Success x" w inp s no_effects]
      generate_no_success [of x w "in_api_key inp" "py_strip (in_word inp)" "emit (Button False) (run_head no_effects)"]
    unfolding i by (auto simp: no_effects_def page_top_def page_config_def)
qed

text \<open>
  C17.  Streamlit's rerun loop always stops, after at most one re-run: the run that
  \<open>st.rerun()\<close> starts has the button released and cannot ask for another.  Its
  result is the interaction's.
\<close>

theorem rerun_loop_terminates: "rerun_loop w inp s [] = Some (interaction w inp s)"
proof (cases "script_run w inp s no_effects")
  case (Rerun s' eff)
  let ?r = "script_run w (inp\<lparr>in_clicked := False\<rparr>) s' \<lparr>ui_out = [], calls = calls eff\<rparr>"
  have "rerun_loop w (inp\<lparr>in_clicked := False\<rparr>) s' (calls eff) = Some ?r"
    by (rule rerun_loop_stops) (simp_all add: script_run_released_not_rerun)
  with Rerun show ?thesis
    by (subst rerun_loop_unfold) (simp add: interaction_def no_effects_def [symmetric])
next
  case (Completed s' eff)
  then show ?thesis
    by (subst rerun_loop_unfold) (simp add: interaction_def no_effects_def [symmetric])
next
  case (Crashed e s' eff)
  then show ?thesis
    by (subst rerun_loop_unfold) (simp add: interaction_def no_effects_def [symmetric])
qed

end
