(* ===== verification/Session.thy ===== *)
theory Session
  imports Controller
begin

text \<open>
  SessionState: the session as a state machine.  A step is one user interaction
  (\<open>interaction\<close> of theory \<open>Controller\<close>) with any inputs the widgets can produce
  (\<open>max_chars=50\<close> bounds the word) and any answers of the services; the reachable
  sessions are those reached from the empty \<open>st.session_state\<close>.  The theory
  proves the invariant of reachable sessions and that it characterises them
  exactly, that every request the services grant can be made and stored from every
  reachable session (liveness), that an image PIL or \<open>st.image\<close> fails on, once
  stored, makes every later interaction end in that exception until a new result
  replaces it, and the layout of every page the user sees, completed or crashed.
\<close>

subsection \<open>Steps and reachable states\<close>

inductive session_step :: "session \<Rightarrow> session \<Rightarrow> bool" where
  interact: "length (in_word inp) \<le> 50 \<Longrightarrow> session_step s (run_session (interaction w inp s))"

inductive reachable :: "session \<Rightarrow> bool" where
  init: "reachable initial_session"
| step: "reachable s \<Longrightarrow> session_step s s' \<Longrightarrow> reachable s'"

inductive_cases session_stepE: "session_step s s'"

definition session_inv :: "session \<Rightarrow> bool" where
  "session_inv s \<longleftrightarrow>
     (case current_image s of
        None \<Rightarrow> current_prompt s = None \<and> current_word s = None
      | Some _ \<Rightarrow>
          (case current_word s of
             None \<Rightarrow> False
           | Some word \<Rightarrow>
               word \<noteq> [] \<and> py_strip word = word \<and> length word \<le> 50 \<and>
               current_prompt s = Some (generate_mandala_prompt word)))"

text \<open>
  A world in which every service call succeeds, PIL decodes the download to the
  given image and writes it, and \<open>st.image\<close> shows it: the witness that every
  image can be the result of a generation.
\<close>

definition serving_world :: "image \<Rightarrow> world" where
  "serving_world img =
     \<lparr>openai_new = (\<lambda>k. Inr \<lparr>client_api_key = k\<rparr>),
      images_generate = (\<lambda>c r. Inr [\<lparr>url = None\<rparr>]),
      requests_get = (\<lambda>u. Inr \<lparr>status_code = 200, reason = ''OK'', resp_url = '''', content = []\<rparr>),
      image_open = (\<lambda>bs. Inr img),
      image_save_png = (\<lambda>i. Inr []),
      image_show = (\<lambda>i. None)\<rparr>"

subsection \<open>The invariant\<close>

lemma session_inv_stored:
  "word \<noteq> [] \<Longrightarrow> py_strip word = word \<Longrightarrow> length word \<le> 50 \<Longrightarrow> session_inv (stored s img word)"
  by (simp add: session_inv_def stored_def)

lemma length_py_strip: "length (py_strip x) \<le> length x"
  using py_strip_sublist [of x] by (rule sublist_length_le)

lemma session_step_inv: "session_step s s' \<Longrightarrow> session_inv s \<Longrightarrow> session_inv s'"
proof (elim session_stepE)
  fix inp w
  assume len: "length (in_word inp) \<le> 50" and s': "s' = run_session (interaction w inp s)"
    and inv: "session_inv s"
  have "length (py_strip (in_word inp)) \<le> 50"
    using len length_py_strip [of "in_word inp"] by linarith
  with inv show "session_inv s'"
    unfolding s' interaction_session
    by (auto intro!: session_inv_stored simp: py_strip_fixed split: sum.splits)
qed

lemma session_inv_initial: "session_inv initial_session"
  by (simp add: session_inv_def initial_session_def)

lemma reachable_inv: "reachable s \<Longrightarrow> session_inv s"
proof (induction rule: reachable.induct)
  case init
  show ?case by (rule session_inv_initial)
next
  case (step s s')
  then show ?case by (blast intro: session_step_inv)
qed

lemma session_inv_completes: "session_inv s \<Longrightarrow> current_image s \<noteq> None \<longrightarrow> current_word s \<noteq> None"
  by (auto simp: session_inv_def split: option.splits)

lemma col2_failure_word:
  "(current_image s \<noteq> None \<longrightarrow> current_word s \<noteq> None) \<Longrightarrow>
   col2_failure w s = Option.bind (current_image s) (image_failure w)"
  by (auto simp: col2_failure_def split: option.splits)

lemma serving_world_spec: "image_client_spec (serving_world img) k p = Inr img"
  by (simp add: image_client_spec_def serving_world_def raise_for_status_def)

text \<open>
  One interaction that stores a granted request: the user types the key and the
  word and clicks.
\<close>

lemma session_step_store:
  assumes "py_strip k \<noteq> []" "py_strip wd \<noteq> []" "length wd \<le> 50"
    and "image_client_spec w k (generate_mandala_prompt (py_strip wd)) = Inr img"
  shows "session_step s (stored s img (py_strip wd))"
proof -
  let ?inp = "\<lparr>in_api_key = k, in_word = wd, in_clicked = True, in_now = t\<rparr>"
  have "session_step s (run_session (interaction w ?inp s))"
    using assms(3) by (intro session_step.interact) simp
  moreover have "run_session (interaction w ?inp s) = stored s img (py_strip wd)"
    using assms by (simp add: interaction_session)
  ultimately show ?thesis
    by simp
qed

text \<open>Every interaction ends in the right column and footer of some session, after a left column of this shape.\<close>

lemma interaction_form:
  "\<exists>s' e0 b msgs. interaction w inp s = main_rest w (in_now inp) s' e0 \<and>
     ui_out e0 = page_top @ Button b # msgs @ help_elems \<and> list_all col1_message msgs \<and>
     (s' = s \<or> (\<exists>img. s' = stored s img (py_strip (in_word inp))))"
proof (cases "in_clicked inp \<and> enabled inp")
  case False
  let ?b = "py_strip (in_api_key inp) = [] \<or> py_strip (in_word inp) = []"
  let ?e0 = "col1_help (missing_info (in_api_key inp) (in_word inp) (emit (Button ?b) (run_head no_effects)))"
  have "interaction w inp s = main_rest w (in_now inp) s ?e0"
    using interaction_idle [OF False, of w s] script_run_idle [OF False, of w s no_effects] by simp
  moreover have "ui_out ?e0 = page_top @ Button ?b # (if ?b then [InfoMissingFields] else []) @ help_elems"
    by (simp add: missing_info_def py_truthy_def no_effects_def)
  ultimately show ?thesis
    by (intro exI [of _ s] exI [of _ ?e0] exI [of _ ?b]) auto
next
  case True
  show ?thesis
  proof (cases "image_client_spec w (in_api_key inp) (word_prompt inp)")
    case (Inl err)
    let ?g = "generate_mandala_image w (in_api_key inp) (py_strip (in_word inp)) (emit (Button False) (run_head no_effects))"
    have "interaction w inp s = main_rest w (in_now inp) s (col1_help (snd ?g))"
      using True interaction_failure_run [of inp w err s] script_run_failure [of inp w err s no_effects] Inl
      by simp
    moreover have "fst ?g = None"
      using Inl by (simp add: generate_mandala_image_value)
    then obtain msgs where "ui_out (snd ?g) = page_top @ [Button False] @ msgs" "list_all col1_message msgs"
      using generate_mandala_image_ui [of w "in_api_key inp" "py_strip (in_word inp)" "emit (Button False) (run_head no_effects)"]
      by (auto simp: no_effects_def)
    ultimately show ?thesis
      by (intro exI [of _ s] exI [of _ "col1_help (snd ?g)"] exI [of _ False] exI [of _ msgs]) simp
  next
    case (Inr img)
    let ?s' = "stored s img (py_strip (in_word inp))"
    obtain eff1 where r1: "script_run w inp s no_effects = Rerun ?s' eff1"
      using script_run_success [of inp w img s no_effects] True Inr by blast
    let ?inp' = "inp\<lparr>in_clicked := False\<rparr>"
    let ?e0 = "col1_help (missing_info (in_api_key inp) (in_word inp)
                 (emit (Button False) (run_head \<lparr>ui_out = [], calls = calls eff1\<rparr>)))"
    have "interaction w inp s = main_rest w (in_now inp) ?s' ?e0"
      using r1 True script_run_idle [of ?inp' w ?s' "\<lparr>ui_out = [], calls = calls eff1\<rparr>"]
      by (simp add: interaction_def)
    moreover have "ui_out ?e0 = page_top @ Button False # [] @ help_elems"
      using True by (simp add: missing_info_def py_truthy_def)
    ultimately show ?thesis
      by (intro exI [of _ ?s'] exI [of _ ?e0] exI [of _ False] exI [of _ "[]"]) auto
  qed
qed

subsection \<open>Properties of the session state machine\<close>

text \<open>
  C10.  An image that PIL cannot write as PNG (\<open>image.save\<close>, line 119: a CMYK
  JPEG raises \<open>OSError\<close>), or that \<open>st.image\<close> cannot display, breaks the page
  once it is stored: Image.open accepted it, the session keeps it, and from then on
  every interaction that does not store a new result ends in that same exception,
  raised in the right column before the footer, and leaves the session, with the
  image, as it was.  No \<open>try\<close> surrounds lines 194--239 and the page offers no
  way to clear the session.
\<close>

theorem stored_image_failure_persists:
  assumes "reachable s" "current_image s = Some img"
    and "image_show w img = Some e \<or> (image_show w img = None \<and> image_save_png w img = Inl e)"
    and "\<not> in_clicked inp \<or> py_strip (in_api_key inp) = [] \<or> py_strip (in_word inp) = [] \<or>
         isl (image_client_spec w (in_api_key inp) (generate_mandala_prompt (py_strip (in_word inp))))"
  shows "\<exists>eff. interaction w inp s = Crashed e s eff"
proof -
  obtain eff' where i: "interaction w inp s = main_rest w (in_now inp) s eff'"
    using interaction_not_success [of inp w s] assms(4) by auto
  have "col2_failure w s = Some e"
    using col2_failure_word [OF session_inv_completes [OF reachable_inv [OF assms(1)]]] assms(2,3)
    by (auto simp: image_failure_def)
  then show ?thesis
    unfolding i by (rule main_rest_crashes)
qed

text \<open>
  C18.  The invariant characterises the reachable sessions exactly: a session is
  reachable if and only if it is empty or holds an image with a non-empty, stripped
  word of at most 50 characters and the prompt built from that word.
\<close>

theorem reachable_iff_session_inv: "reachable s \<longleftrightarrow> session_inv s"
proof
  assume "reachable s"
  then show "session_inv s"
    by (rule reachable_inv)
next
  assume inv: "session_inv s"
  show "reachable s"
  proof (cases "current_image s")
    case None
    with inv have "s = initial_session"
      by (cases s) (simp add: session_inv_def initial_session_def)
    then show ?thesis
      by (simp add: reachable.init)
  next
    case (Some img)
    with inv obtain word where w: "current_word s = Some word" and "word \<noteq> []" "py_strip word = word"
      "length word \<le> 50" "current_prompt s = Some (generate_mandala_prompt word)"
      by (auto simp: session_inv_def split: option.splits)
    moreover have "py_strip ''k'' \<noteq> []"
      by (simp add: py_defs)
    ultimately have "session_step initial_session (stored initial_session img (py_strip word))"
      by (intro session_step_store [where w = "serving_world img" and k = "''k''"])
        (simp_all add: serving_world_spec)
    moreover have "stored initial_session img (py_strip word) = s"
      using Some w \<open>py_strip word = word\<close> \<open>current_prompt s = _\<close>
      by (cases s) (simp add: stored_def initial_session_def)
    ultimately show ?thesis
      by (metis reachable.init reachable.step)
  qed
qed

text \<open>
  C19.  Liveness: from every reachable session the user reaches every other
  non-empty reachable session in one interaction, whenever the services grant that
  request: there is no state the user cannot leave, and a failed request can always
  be retried.
\<close>

theorem reachable_strongly_connected:
  assumes "reachable s" "reachable t" "t \<noteq> initial_session"
  shows "session_step s t"
proof -
  have inv: "session_inv t"
    using assms(2) by (rule reachable_inv)
  obtain img where img: "current_image t = Some img"
    using assms(3) inv by (cases t) (auto simp: session_inv_def initial_session_def split: option.splits)
  with inv obtain word where w: "current_word t = Some word" and "word \<noteq> []" "py_strip word = word"
    "length word \<le> 50" "current_prompt t = Some (generate_mandala_prompt word)"
    by (auto simp: session_inv_def split: option.splits)
  moreover have "py_strip ''k'' \<noteq> []"
    by (simp add: py_defs)
  ultimately have "session_step s (stored s img (py_strip word))"
    by (intro session_step_store [where w = "serving_world img" and k = "''k''"])
      (simp_all add: serving_world_spec)
  moreover have "stored s img (py_strip word) = t"
    using img w \<open>py_strip word = word\<close> \<open>current_prompt t = _\<close>
    by (cases s, cases t) (simp add: stored_def)
  ultimately show ?thesis
    by simp
qed

text \<open>
  C20.  A stored result is never lost: no interaction empties the session (the page
  has no way to clear it), and an interaction either keeps the stored result or
  replaces it by a new complete one.
\<close>

theorem stored_result_never_lost:
  assumes "session_step s s'" "current_image s \<noteq> None"
  shows "current_image s' \<noteq> None \<and> (s' = s \<or> (\<exists>img word. s' = stored s img word))"
  using assms
  by (fastforce elim!: session_stepE simp: interaction_session split: sum.splits)

text \<open>
  C21.  Every page the user sees from a reachable session has the same layout: the
  configuration, style sheet, header and inputs; the button; the messages of the
  left column; the two help panels; the right column's title; then, when the run
  completes, either the placeholder with the examples or the image with its
  download section (and the prompt panel), and the footer ending in the privacy
  note.  A run that does not complete crashes with exactly the exception
  \<open>st.image\<close> or \<open>image.save\<close> raises on the session's image, after nothing
  more of the column or after the image, the opening \<open>div\<close> and the title.
\<close>

theorem reachable_page_layout:
  assumes "reachable s"
  shows "\<exists>b msgs rest. ui_out (run_effects (interaction w inp s)) =
           page_top @ Button b # msgs @ help_elems @ Markdown col2_title # rest \<and>
         list_all col1_message msgs \<and>
         (case interaction w inp s of
            Completed _ _ \<Rightarrow>
              \<exists>right. rest = right @ footer_elems \<and>
                (right = placeholder_column \<or>
                 (\<exists>img word link fn. right = image_column img word link fn \<or>
                                     (\<exists>p. right = image_column img word link fn @ [ShowPrompt p])))
          | Crashed e s' _ \<Rightarrow>
              \<exists>img word. current_image s' = Some img \<and> current_word s' = Some word \<and>
                image_failure w img = Some e \<and>
                (rest = [] \<or> rest = [ShowImage img word, Html download_open, Markdown download_title])
          | Rerun _ _ \<Rightarrow> False)"
proof -
  obtain s' e0 b msgs where i: "interaction w inp s = main_rest w (in_now inp) s' e0"
    and e0: "ui_out e0 = page_top @ Button b # msgs @ help_elems" and m: "list_all col1_message msgs"
    and s': "s' = s \<or> (\<exists>img. s' = stored s img (py_strip (in_word inp)))"
    using interaction_form [of w inp s] by blast
  have wd: "current_image s' \<noteq> None \<longrightarrow> current_word s' \<noteq> None"
    using s' session_inv_completes [OF reachable_inv [OF assms]] by auto
  show ?thesis
  proof (cases "main_rest w (in_now inp) s' e0")
    case (Completed s'' eff')
    from main_rest_layout [OF Completed] e0 m show ?thesis
      unfolding i Completed by fastforce
  next
    case (Crashed e s'' eff')
    have "col2_failure w s' = Some e"
      using Crashed by (rule main_rest_crashed_failure)
    then obtain img where img: "current_image s' = Some img" "image_failure w img = Some e"
      using col2_failure_word [OF wd] by (cases "current_image s'") auto
    have "s'' = s'"
      using main_rest_session [of w "in_now inp" s' e0] Crashed by simp
    moreover obtain word where "current_word s' = Some word"
      using img wd by auto
    moreover have "ui_out eff' = ui_out e0 @ [Markdown col2_title] \<or>
       ui_out eff' = ui_out e0 @ [Markdown col2_title, ShowImage img word, Html download_open,
                                  Markdown download_title]"
      using main_rest_crash_layout [OF Crashed] img \<open>current_word s' = Some word\<close> by auto
    ultimately show ?thesis
      using img e0 m unfolding i Crashed by fastforce
  next
    case (Rerun s'' eff')
    then show ?thesis
      by simp
  qed
qed

end
