(* ===== verification/Spec2Isabelle.thy ===== *)
theory Spec2Isabelle
  imports Prelude Prompt Base64 Client Download Page Controller Session
begin

text \<open>
  Mandala Art Generator (src/MandalaArt.py), a Streamlit script.

  \<^bold>\<open>The program.\<close>  Streamlit runs the whole script on every user interaction.  The
  left column reads an OpenAI API key and an inspiration word (at most 50
  characters), and offers a Generate button that is disabled while either is blank
  after stripping whitespace.  A click builds a text prompt from the word
  (\<open>generate_mandala_prompt\<close>, lines 66--81), asks DALL-E 3 for one 1024x1024 image
  (\<open>create_openai_client\<close> and \<open>generate_mandala_image\<close>, lines 57--114), downloads
  and decodes it, stores image, prompt and word in \<open>st.session_state\<close> and re-runs
  the script.  The right column shows the stored image (\<open>st.image\<close>), a download
  link that carries the PNG bytes PIL writes as a base64 data URL
  (\<open>get_image_download_link\<close>, lines 116--122) under a file name built from the
  word and the current time (lines 205--207), and the prompt used.  On an error of
  the generation the message is shown and nothing is stored; an exception in the
  right column is not caught and ends the run.

  \<^bold>\<open>Theories.\<close>
  \<^item> \<open>Prelude\<close>: the Python built-ins the script uses on strings: \<open>str.strip\<close>
    (\<open>py_strip\<close>, with CPython's whitespace set), truthiness and \<open>and\<close> on
    strings (\<open>py_truthy\<close>, \<open>py_and\<close>); idempotence of strip and the list lemmas the
    components share.
  \<^item> \<open>Prompt\<close>: the f-string of \<open>generate_mandala_prompt\<close>, byte for byte.
    The prompt contains the quoted word and the style markers (C1) and determines the
    word (C2).
  \<^item> \<open>Base64\<close>: the standard library's \<open>base64.b64encode\<close> that line 120 calls,
    as CPython's \<open>binascii.b2a_base64\<close> loop over a 32-bit \<open>leftchar\<close>
    accumulator, with the lemmas that it computes RFC 4648 and that a strict decoder
    inverts it.  It is library semantics, here because the download link's round
    trip (C3) is a statement about the bytes.
  \<^item> \<open>Client\<close>: the exceptions, images and HTTP responses; the services and
    libraries (OpenAI, \<open>requests.get\<close>, PIL's \<open>Image.open\<close> and
    \<open>image.save\<close>, and the conversion \<open>st.image\<close> performs) as the fields of a
    \<open>world\<close> record, each returning a value or an exception, left arbitrary;
    \<open>raise_for_status\<close> of \<open>requests\<close>; the two client functions, recording the
    Streamlit elements and the external calls in \<open>effects\<close>.  The contract of spec
    section 4.2 is \<open>image_client_spec\<close>, and \<open>generate_mandala_image\<close> refines it
    (C5) with the calls in the order of C6.
  \<^item> \<open>Download\<close>: the HTML of the download link, which fails with the exception of
    \<open>image.save\<close>, the \<open>strftime\<close> file name, and the browser's delimiting of
    both: the data URL decodes back to the PNG bytes PIL wrote (C3), the source
    text of the \<open>download\<close> attribute is the file name cut at its first double
    quote (C4), and the word can be read back from the file name for every valid
    \<open>datetime\<close> (C22).
  \<^item> \<open>Page\<close>: the page chrome, every literal byte for byte: \<open>st.set_page_config\<close>
    and the style sheet run at module level (lines 11--56), the header and layout,
    the left column's title and text inputs, the two help expanders, the examples
    under the placeholder and the footer with the privacy note.
  \<^item> \<open>Controller\<close>: \<open>main\<close> as one run of the script (\<open>script_run\<close>: the chrome,
    the left column \<open>main_col1\<close>, and unless it re-ran, the right column and footer
    \<open>main_rest\<close> with the if/else \<open>render_col2\<close>, which fails at the missing
    word, at \<open>st.image\<close> or at \<open>image.save\<close>), an interaction as a run plus the
    run \<open>st.rerun()\<close> starts (\<open>interaction\<close>), and Streamlit's rerun loop
    (\<open>rerun_loop\<close>).  Success stores the result and shows it (C7), failure keeps
    the session (C8), the page starts with the chrome and the button in its state
    (C9), no call without a submission (C11), the three places where the code
    departs from the spec (C12, C13, C14), the success message that
    \<open>st.rerun()\<close> discards (C16), and the loop stops after one re-run (C17).
  \<^item> \<open>Session\<close>: the session as a state machine (\<open>session_step\<close>, \<open>reachable\<close>):
    a stored image PIL or \<open>st.image\<close> fails on makes every later interaction crash
    until it is replaced (C10), the invariant characterises the reachable sessions
    exactly (C18), every non-empty reachable session is one granted request away from
    every other (C19), a stored result is never lost (C20), and every page has the
    same layout, or ends at the exception of the stored image (C21).
  \<^item> This theory: concrete worlds (services that answer like the scenarios of spec
    section 8, and one whose image PIL cannot write as PNG), the classification of
    a rejected key (C15), and a witness for each claim with a hypothesis.

  \<^bold>\<open>Bounds and fuel.\<close>  Every function of the script's model is total: its loops (the
  base64 loop, \<open>str(int)\<close>, \<open>strip\<close>) are structural or well-founded recursion.
  The one loop without a bound in its code is Streamlit's: it re-runs the script for
  as long as a run ends in \<open>st.rerun()\<close>.  It is \<open>rerun_loop\<close>, a
  \<open>partial_function (option)\<close>, and C17 proves that it returns, after at most one
  re-run.  The one bound on the inputs is the widget's \<open>max_chars=50\<close>, a premise
  of \<open>session_step\<close>; it is what puts the stored word's length within 50 (C18).
  Python's integers are unbounded, modelled as \<open>nat\<close>; only the C accumulator of
  \<open>b2a_base64\<close> is a machine word, and its wrap-around is harmless because the loop
  only ever reads its low 14 bits.

  \<^bold>\<open>Not modelled.\<close>  The libraries are not code of this repository: Streamlit's
  rendering of elements to HTML, the OpenAI client, \<open>requests\<close>, PIL's codecs and
  the clock.  What the script observes of them is the \<open>world\<close> and the
  \<open>inputs\<close> record, and the theorems hold for every world, that is, whatever value
  or exception each of the world's calls returns.  The other Streamlit calls
  (\<open>st.markdown\<close>, \<open>st.button\<close>, \<open>st.columns\<close>, \<open>st.expander\<close>, ...) are taken
  not to raise, and the \<open>st.spinner\<close> of line 92, removed when its block exits, is
  not an element of the finished page.  The fixed text and emoji of the messages,
  the button and the image caption are part of their \<open>ui\<close> constructors; the help
  text of the key input and the placeholders of the inputs, which affect only
  rendering, are left out of \<open>TextInput\<close>.
\<close>

subsection \<open>A concrete world for the scenarios of spec section 8\<close>

text \<open>
  The OpenAI client accepts any key; the generation call accepts only
  \<open>valid-token\<close> and returns one image locator; the download answers with the given
  status and the bytes of a PNG that PIL decodes to a 1024x1024 image.
\<close>

definition demo_png :: "byte list" where
  "demo_png = [0x89, 0x50, 0x4E, 0x47, 0x0D, 0x0A, 0x1A, 0x0A]"

definition demo_image :: image where
  "demo_image = \<lparr>img_width = 1024, img_height = 1024, img_pixels = []\<rparr>"

definition demo_url :: pystr where
  "demo_url = ''https://images.example/mandala.png''"

definition demo_world :: "nat \<Rightarrow> world" where
  "demo_world status =
     \<lparr>openai_new = (\<lambda>k. Inr \<lparr>client_api_key = k\<rparr>),
      images_generate = (\<lambda>c r.
        if client_api_key c = ''valid-token'' then Inr [\<lparr>url = Some demo_url\<rparr>]
        else Inl \<lparr>exc_class = AuthenticationError, exc_str = ''Error code: 401 - invalid_api_key''\<rparr>),
      requests_get = (\<lambda>u.
        if u = Some demo_url then
          Inr \<lparr>status_code = status,
               reason = (if status = 200 then ''OK'' else ''Internal Server Error''),
               resp_url = demo_url, content = demo_png\<rparr>
        else Inl \<lparr>exc_class = MissingSchema, exc_str = ''Invalid URL''\<rparr>),
      image_open = (\<lambda>bs.
        if bs = demo_png then Inr demo_image
        else Inl \<lparr>exc_class = UnidentifiedImageError, exc_str = ''cannot identify image file''\<rparr>),
      image_save_png = (\<lambda>img. Inr demo_png),
      image_show = (\<lambda>img. None)\<rparr>"

text \<open>
  The same services, but the decoded image is one PIL cannot write as PNG (a CMYK
  JPEG): \<open>image.save\<close> raises PIL's \<open>OSError\<close>.
\<close>

definition cmyk_error :: py_exc where
  "cmyk_error = \<lparr>exc_class = OSError, exc_str = ''cannot write mode CMYK as PNG''\<rparr>"

definition cmyk_world :: world where
  "cmyk_world = (demo_world 200)\<lparr>image_save_png := (\<lambda>img. Inl cmyk_error)\<rparr>"

definition demo_time :: timestamp where
  "demo_time = \<lparr>ts_year = 2026, ts_month = 11, ts_day = 9, ts_hour = 14, ts_minute = 30, ts_second = 5\<rparr>"

definition demo_inputs :: "pystr \<Rightarrow> pystr \<Rightarrow> bool \<Rightarrow> inputs" where
  "demo_inputs key word clicked =
     \<lparr>in_api_key = key, in_word = word, in_clicked = clicked, in_now = demo_time\<rparr>"

definition peace_session :: session where
  "peace_session =
     \<lparr>current_image = Some demo_image, current_prompt = Some (generate_mandala_prompt ''peace''),
      current_word = Some ''peace''\<rparr>"

definition fetch_500_msg :: pystr where
  "fetch_500_msg = ''500 Server Error: Internal Server Error for url: '' @ demo_url"

subsection \<open>Evaluation lemmas\<close>

lemma demo_strips:
  "py_strip ''peace'' = ''peace''" "py_strip ''valid-token'' = ''valid-token''" "py_strip '''' = ''''"
  "py_strip ''bad-key-1'' = ''bad-key-1''" "py_strip ''bad-key-2'' = ''bad-key-2''"
  by (simp_all add: py_defs)

lemma char_of_digits: "char_of (48::nat) = CHR ''0''" "char_of (53::nat) = CHR ''5''"
  by code_simp+

lemma demo_spec_ok: "image_client_spec (demo_world 200) ''valid-token'' p = Inr demo_image"
  by (simp add: image_client_spec_def demo_world_def raise_for_status_def)

lemma demo_spec_500:
  "image_client_spec (demo_world 500) ''valid-token'' p = Inl (FetchError fetch_500_msg)"
  by (simp add: image_client_spec_def demo_world_def raise_for_status_def nat_str.simps char_of_digits
      fetch_500_msg_def)

lemma demo_spec_bad_key:
  "client_api_key c \<noteq> ''valid-token'' \<Longrightarrow> images_generate (demo_world st) c r =
     Inl \<lparr>exc_class = AuthenticationError, exc_str = ''Error code: 401 - invalid_api_key''\<rparr>"
  by (simp add: demo_world_def)

lemma demo_world_pil:
  "image_show (demo_world st) img = None" "image_save_png (demo_world st) img = Inr demo_png"
  by (simp_all add: demo_world_def)

lemma demo_peace_run:
  "run_session (interaction (demo_world 200) (demo_inputs ''valid-token'' ''peace'' True) s) =
     stored s demo_image ''peace''"
  by (simp add: interaction_session demo_inputs_def demo_strips demo_spec_ok)

lemma peace_session_reachable: "reachable peace_session"
proof -
  have "session_step initial_session
          (run_session (interaction (demo_world 200) (demo_inputs ''valid-token'' ''peace'' True) initial_session))"
    by (rule session_step.interact) (simp add: demo_inputs_def)
  then have "session_step initial_session peace_session"
    by (simp add: demo_peace_run stored_def initial_session_def peace_session_def)
  then show ?thesis
    by (rule reachable.step [OF reachable.init])
qed

subsection \<open>A credential rejected by the generation call\<close>

text \<open>
  C15.  \<open>openai.OpenAI(api_key=...)\<close> does not check the key; a key the service
  rejects fails the generation call with \<open>AuthenticationError\<close>.  The contract
  classifies that as \<open>AuthError\<close>, but the page reports it as an error generating the
  image and never as an API-key error: the user-facing message does not tell the
  error kinds apart.
\<close>

theorem rejected_key_reported_as_generation_error:
  assumes "in_clicked inp" "py_strip (in_api_key inp) \<noteq> []" "py_strip (in_word inp) \<noteq> []"
    and "openai_new w (in_api_key inp) = Inr client"
    and "images_generate w client (mandala_request (generate_mandala_prompt (py_strip (in_word inp)))) = Inl e"
    and "exc_class e = AuthenticationError"
  shows "image_client_spec w (in_api_key inp) (generate_mandala_prompt (py_strip (in_word inp))) =
           Inl (AuthError (exc_str e)) \<and>
         ErrGenerating (exc_str e) \<in> set (ui_out (run_effects (interaction w inp s))) \<and>
         (\<forall>m. ErrApiKey m \<notin> set (ui_out (run_effects (interaction w inp s))))"
proof -
  have spec: "image_client_spec w (in_api_key inp) (generate_mandala_prompt (py_strip (in_word inp))) =
                Inl (AuthError (exc_str e))"
    using assms(4-6) by (simp add: image_client_spec_def)
  let ?e0 = "col1_help (snd (generate_mandala_image w (in_api_key inp) (py_strip (in_word inp))
               (emit (Button False) (run_head no_effects))))"
  have ui: "ui_out ?e0 = page_top @ [Button False, ErrGenerating (exc_str e)] @ help_elems"
    using assms(4,5) by (simp add: client_defs Let_def no_effects_def)
  have i: "interaction w inp s = main_rest w (in_now inp) s ?e0"
    using interaction_main_rest [OF script_run_failure [OF assms(1) _ spec]] assms(2,3) by simp
  have "prefix (ui_out ?e0) (ui_out (run_effects (main_rest w (in_now inp) s ?e0)))"
    by (rule main_rest_ui_prefix)
  then have "ErrGenerating (exc_str e) \<in> set (ui_out (run_effects (interaction w inp s)))"
    unfolding i ui by (auto dest: set_mono_prefix)
  moreover have "ErrApiKey m \<notin> set (ui_out (run_effects (interaction w inp s)))" for m
    using main_rest_col1_message [of "ErrApiKey m" w "in_now inp" s ?e0]
    unfolding i ui by (auto simp: page_top_def page_config_def help_elems_def)
  ultimately show ?thesis
    using spec by blast
qed

subsection \<open>Witnesses\<close>

text \<open>Each claim with a hypothesis, applied where its hypotheses hold.\<close>

theorem download_link_roundtrip_witness:
  "image_save_png (demo_world 200) demo_image = Inr demo_png \<and>
   (\<exists>html. get_image_download_link (demo_world 200) demo_image (mandala_filename ''peace'' demo_time) = Inr html \<and>
      Option.bind (link_payload html) b64decode = Some demo_png)"
  using download_link_roundtrip [where w = "demo_world 200" and img = demo_image and bs = demo_png
      and fn = "mandala_filename ''peace'' demo_time"]
  by (simp add: demo_world_pil)

theorem download_attr_filename_witness:
  "get_image_download_link (demo_world 200) demo_image (mandala_filename (''pea'' @ [dq] @ ''ce'') demo_time) =
     Inr (link_head @ b64encode demo_png @ link_mid @ mandala_filename (''pea'' @ [dq] @ ''ce'') demo_time @
          link_tail) \<and>
   download_attr_source (link_head @ b64encode demo_png @ link_mid @
       mandala_filename (''pea'' @ [dq] @ ''ce'') demo_time @ link_tail) = Some ''mandala_pea'' \<and>
   download_attr_source (link_head @ b64encode demo_png @ link_mid @
       mandala_filename (''pea'' @ [dq] @ ''ce'') demo_time @ link_tail) \<noteq>
     Some (mandala_filename (''pea'' @ [dq] @ ''ce'') demo_time)"
proof -
  let ?fn = "mandala_filename (''pea'' @ [dq] @ ''ce'') demo_time"
  have link: "get_image_download_link (demo_world 200) demo_image ?fn =
                Inr (link_head @ b64encode demo_png @ link_mid @ ?fn @ link_tail)"
    by (simp add: get_image_download_link_Inr demo_world_pil)
  have "takeWhile (\<lambda>c. c \<noteq> dq) ?fn = ''mandala_pea''"
    by (simp add: mandala_filename_def dq_def)
  with link show ?thesis
    using download_attr_filename [OF link] by (simp add: mandala_filename_def)
qed


theorem interaction_success_witness:
  "in_clicked (demo_inputs ''valid-token'' ''peace'' True) \<and>
   image_client_spec (demo_world 200) ''valid-token'' (generate_mandala_prompt ''peace'') = Inr demo_image \<and>
   image_show (demo_world 200) demo_image = None \<and>
   run_session (interaction (demo_world 200) (demo_inputs ''valid-token'' ''peace'' True) initial_session) =
     peace_session \<and>
   ShowImage demo_image ''peace'' \<in>
     set (ui_out (run_effects (interaction (demo_world 200) (demo_inputs ''valid-token'' ''peace'' True) initial_session)))"
  using interaction_success [where inp = "demo_inputs ''valid-token'' ''peace'' True" and w = "demo_world 200"
      and img = demo_image and s = initial_session]
  by (simp add: demo_inputs_def demo_strips demo_spec_ok peace_session_def demo_world_pil)

theorem interaction_failure_keeps_session_witness:
  "run_session (interaction (demo_world 500) (demo_inputs ''valid-token'' ''peace'' True) peace_session) =
     peace_session \<and>
   (ErrApiKey fetch_500_msg \<in>
      set (ui_out (run_effects (interaction (demo_world 500) (demo_inputs ''valid-token'' ''peace'' True) peace_session))) \<or>
    ErrGenerating fetch_500_msg \<in>
      set (ui_out (run_effects (interaction (demo_world 500) (demo_inputs ''valid-token'' ''peace'' True) peace_session))))"
  using interaction_failure_keeps_session [where inp = "demo_inputs ''valid-token'' ''peace'' True"
      and w = "demo_world 500" and err = "FetchError fetch_500_msg" and s = peace_session]
  by (simp add: demo_inputs_def demo_strips demo_spec_500)

theorem no_calls_unless_submitted_witness:
  "py_strip (in_api_key (demo_inputs '''' ''peace'' True)) = [] \<and>
   calls (run_effects (interaction (demo_world 200) (demo_inputs '''' ''peace'' True) peace_session)) = [] \<and>
   run_session (interaction (demo_world 200) (demo_inputs '''' ''peace'' True) peace_session) = peace_session"
  using no_calls_unless_submitted [where inp = "demo_inputs '''' ''peace'' True" and w = "demo_world 200"
      and s = peace_session]
  by (simp add: demo_inputs_def demo_strips)

theorem failure_shows_previous_image_witness:
  "image_show (demo_world 500) demo_image = None \<and>
   image_client_spec (demo_world 500) ''valid-token'' (generate_mandala_prompt ''peace'') =
     Inl (FetchError fetch_500_msg) \<and>
   ShowImage demo_image ''peace'' \<in>
     set (ui_out (run_effects (interaction (demo_world 500) (demo_inputs ''valid-token'' ''peace'' True) peace_session)))"
  using failure_shows_previous_image [where s = peace_session and img_old = demo_image and word_old = "''peace''"
      and w = "demo_world 500" and inp = "demo_inputs ''valid-token'' ''peace'' True"
      and err = "FetchError fetch_500_msg"]
  by (simp add: peace_session_def demo_inputs_def demo_strips demo_spec_500 demo_world_pil)

theorem filename_depends_on_render_time_witness:
  "strftime_stamp demo_time = ''20261109_143005'' \<and>
   strftime_stamp (demo_time\<lparr>ts_second := 6\<rparr>) = ''20261109_143006'' \<and>
   render_col2 (demo_world 200) demo_time peace_session no_effects \<noteq>
   render_col2 (demo_world 200) (demo_time\<lparr>ts_second := 6\<rparr>) peace_session no_effects"
proof -
  have "strftime_stamp demo_time = ''20261109_143005''"
    "strftime_stamp (demo_time\<lparr>ts_second := 6\<rparr>) = ''20261109_143006''"
    by code_simp+
  then show ?thesis
    using filename_depends_on_render_time [where s = peace_session and img = demo_image and word = "''peace''"
        and t_gen = demo_time and t_now = "demo_time\<lparr>ts_second := 6\<rparr>" and w = "demo_world 200" and eff = no_effects
        and bs = demo_png]
    by (simp add: peace_session_def demo_world_pil)
qed

theorem api_key_not_persisted_witness:
  "image_client_spec (demo_world 200) ''bad-key-1'' (generate_mandala_prompt ''peace'') =
     image_client_spec (demo_world 200) ''bad-key-2'' (generate_mandala_prompt ''peace'') \<and>
   run_session (interaction (demo_world 200) (demo_inputs ''bad-key-1'' ''peace'' True) peace_session) =
   run_session (interaction (demo_world 200) (demo_inputs ''bad-key-2'' ''peace'' True) peace_session)"
proof -
  have "image_client_spec (demo_world 200) ''bad-key-1'' (generate_mandala_prompt ''peace'') =
        image_client_spec (demo_world 200) ''bad-key-2'' (generate_mandala_prompt ''peace'')"
    by (simp add: image_client_spec_def demo_world_def)
  then show ?thesis
    using api_key_not_persisted [where key_a = "''bad-key-1''" and key_b = "''bad-key-2''" and w = "demo_world 200"
        and inp = "demo_inputs ''bad-key-1'' ''peace'' True" and s = peace_session]
    by (simp add: demo_inputs_def demo_strips)
qed

theorem rejected_key_reported_as_generation_error_witness:
  "image_client_spec (demo_world 200) ''bad-key-1'' (generate_mandala_prompt ''peace'') =
     Inl (AuthError ''Error code: 401 - invalid_api_key'') \<and>
   ErrGenerating ''Error code: 401 - invalid_api_key'' \<in>
     set (ui_out (run_effects (interaction (demo_world 200) (demo_inputs ''bad-key-1'' ''peace'' True) initial_session))) \<and>
   (\<forall>m. ErrApiKey m \<notin>
     set (ui_out (run_effects (interaction (demo_world 200) (demo_inputs ''bad-key-1'' ''peace'' True) initial_session))))"
  using rejected_key_reported_as_generation_error [where inp = "demo_inputs ''bad-key-1'' ''peace'' True"
      and w = "demo_world 200" and client = "\<lparr>client_api_key = ''bad-key-1''\<rparr>"
      and e = "\<lparr>exc_class = AuthenticationError, exc_str = ''Error code: 401 - invalid_api_key''\<rparr>"
      and s = initial_session]
  by (simp add: demo_inputs_def demo_strips demo_world_def)

theorem reachable_iff_session_inv_witness:
  "session_inv peace_session \<and> reachable peace_session"
proof -
  have "session_inv peace_session"
    by (simp add: session_inv_def peace_session_def demo_strips)
  then show ?thesis
    using reachable_iff_session_inv [of peace_session] by simp
qed

theorem reachable_strongly_connected_witness:
  "reachable initial_session \<and> reachable peace_session \<and> peace_session \<noteq> initial_session \<and>
   session_step initial_session peace_session"
proof -
  have "peace_session \<noteq> initial_session"
    by (simp add: peace_session_def initial_session_def)
  then show ?thesis
    using reachable_strongly_connected [of initial_session peace_session]
      reachable.init peace_session_reachable by simp
qed

theorem stored_result_never_lost_witness:
  "session_step peace_session
     (run_session (interaction (demo_world 500) (demo_inputs ''valid-token'' ''love'' True) peace_session)) \<and>
   current_image
     (run_session (interaction (demo_world 500) (demo_inputs ''valid-token'' ''love'' True) peace_session)) \<noteq> None"
proof -
  have step: "session_step peace_session
     (run_session (interaction (demo_world 500) (demo_inputs ''valid-token'' ''love'' True) peace_session))"
    by (rule session_step.interact) (simp add: demo_inputs_def)
  have "current_image peace_session \<noteq> None"
    by (simp add: peace_session_def)
  with step show ?thesis
    using stored_result_never_lost [OF step] by simp
qed

theorem stored_image_failure_persists_witness:
  "reachable peace_session \<and> image_save_png cmyk_world demo_image = Inl cmyk_error \<and>
   (\<exists>eff. interaction cmyk_world (demo_inputs ''valid-token'' ''peace'' False) peace_session =
      Crashed cmyk_error peace_session eff)"
  using stored_image_failure_persists [where s = peace_session and img = demo_image and w = cmyk_world
      and e = cmyk_error and inp = "demo_inputs ''valid-token'' ''peace'' False"] peace_session_reachable
  by (simp add: peace_session_def cmyk_world_def demo_world_def demo_inputs_def)

theorem reachable_page_layout_witness:
  "reachable peace_session \<and>
   (\<exists>b msgs rest. ui_out (run_effects (interaction cmyk_world (demo_inputs ''valid-token'' ''peace'' False)
        peace_session)) = page_top @ Button b # msgs @ help_elems @ Markdown col2_title # rest \<and>
      (rest = [] \<or> rest = [ShowImage demo_image ''peace'', Html download_open, Markdown download_title]))"
proof -
  obtain eff where i: "interaction cmyk_world (demo_inputs ''valid-token'' ''peace'' False) peace_session =
      Crashed cmyk_error peace_session eff"
    using stored_image_failure_persists_witness by blast
  show ?thesis
    using reachable_page_layout [where s = peace_session and w = cmyk_world
      and inp = "demo_inputs ''valid-token'' ''peace'' False"] peace_session_reachable
    unfolding i by (auto simp: peace_session_def)
qed

theorem mandala_filename_roundtrip_witness:
  "valid_timestamp demo_time \<and> filename_word (mandala_filename ''peace'' demo_time) = Some ''peace''"
proof -
  have "valid_timestamp demo_time"
    by (simp add: valid_timestamp_def demo_time_def)
  then show ?thesis
    using mandala_filename_roundtrip [of demo_time "''peace''"] by simp
qed

end
